theory Spec2Isabelle
  imports Main "HOL-Library.AList" "HOL-Library.Multiset"
begin

section \<open>Broadcaster: a socket group (server.ts) and a client socket (client.ts)\<close>

text \<open>
  The library keeps a group of WebSockets in a plain JavaScript object keyed by a
  caller-chosen key (\<^verbatim>\<open>createSocketGroup\<close> in server.ts) and wraps one WebSocket on the
  client (\<^verbatim>\<open>connect\<close> in client.ts). Both sides exchange messages
  \<^verbatim>\<open>{ key, data }\<close> as JSON text and dispatch an incoming message to the handler stored
  under its \<^verbatim>\<open>key\<close>.

  The embedding is shallow. A WebSocket is a mutable object that several places refer
  to, so the model has a store from addresses to socket states; every operation takes
  the state and returns how it completed together with the new state. A JavaScript
  exception is the completion \<open>Throw\<close>. What the platform provides and the repository
  only calls (\<^verbatim>\<open>JSON.parse\<close>, \<^verbatim>\<open>JSON.stringify\<close>, the bodies of the user's handlers and
  callbacks) is a parameter of the function that calls it. The WebSocket methods
  \<^verbatim>\<open>send\<close> and \<^verbatim>\<open>close\<close> follow the WebSocket standard, and \<^verbatim>\<open>Deno.upgradeWebSocket\<close>
  is what Deno documents: it returns a socket that is not open yet. Reading a property
  of a plain object follows ECMAScript: a property the object does not have itself is
  looked for in \<^verbatim>\<open>Object.prototype\<close>.
\<close>

subsection \<open>JavaScript values, errors and completions\<close>

datatype js_error = TypeError | SyntaxError | InvalidStateError

text \<open>How a call ends: it returns a value, or it throws.\<close>

datatype 'a completion = Normal 'a | Throw js_error

text \<open>
  What \<^verbatim>\<open>JSON.parse\<close> can return. A number is kept as the text JavaScript prints for
  it (\<^verbatim>\<open>String(n)\<close>, so both zeros are \<^verbatim>\<open>0\<close>), which is all the dispatch code ever uses
  of a number: whether it is zero, and its name as a property key. An object is the
  list of its own properties, each name once. \<open>JUndefined\<close> is never parsed; it is
  the value of a property that is missing.
\<close>

datatype js_value =
    JUndefined
  | JNull
  | JBool bool
  | JNumber string
  | JString string
  | JArray "js_value list"
  | JObject "(string \<times> js_value) list"

text \<open>\<^verbatim>\<open>!eventData\<close> is the negation of this.\<close>

fun truthy :: "js_value \<Rightarrow> bool" where
  "truthy JUndefined = False"
| "truthy JNull = False"
| "truthy (JBool b) = b"
| "truthy (JNumber n) = (n \<noteq> ''0'')"
| "truthy (JString s) = (s \<noteq> [])"
| "truthy (JArray vs) = True"
| "truthy (JObject ps) = True"

text \<open>
  \<^verbatim>\<open>eventData.key\<close> and \<^verbatim>\<open>eventData.data\<close>, read from a value that is not null or
  undefined: the property of an object, and undefined on anything else (no array,
  string, number or boolean has a property of either name). The function is applied
  to these two names only.
\<close>

fun get_member :: "js_value \<Rightarrow> string \<Rightarrow> js_value" where
  "get_member (JObject ps) name = (case map_of ps name of Some v \<Rightarrow> v | None \<Rightarrow> JUndefined)"
| "get_member v name = JUndefined"

fun join_with :: "string \<Rightarrow> string list \<Rightarrow> string" where
  "join_with sep [] = []"
| "join_with sep [s] = s"
| "join_with sep (s # t # ss) = s @ sep @ join_with sep (t # ss)"

text \<open>
  \<^verbatim>\<open>handlers[eventData.key]\<close> turns the key into a property name with ECMAScript's
  \<^verbatim>\<open>ToPropertyKey\<close>. A primitive value is printed. An array is printed by
  \<^verbatim>\<open>Array.prototype.join\<close>: its elements printed and joined with commas, a null or
  undefined element as the empty text. An object parsed from JSON has no callable
  property of its own, so \<^verbatim>\<open>OrdinaryToPrimitive\<close> gives \<^verbatim>\<open>[object Object]\<close>, from the
  inherited \<^verbatim>\<open>toString\<close>, unless the object has a property \<^verbatim>\<open>toString\<close> of its own: that
  one is found first, it is not callable, \<^verbatim>\<open>valueOf\<close> does not give a primitive value
  either, and the conversion throws a TypeError. The error of an element is the error
  of the array.
\<close>

fun to_property_key :: "js_value \<Rightarrow> js_error + string"
  and element_texts :: "js_value list \<Rightarrow> js_error + string list" where
  "to_property_key JUndefined = Inr ''undefined''"
| "to_property_key JNull = Inr ''null''"
| "to_property_key (JBool b) = Inr (if b then ''true'' else ''false'')"
| "to_property_key (JNumber n) = Inr n"
| "to_property_key (JString s) = Inr s"
| "to_property_key (JArray vs) =
     (case element_texts vs of
        Inl e \<Rightarrow> Inl e
      | Inr texts \<Rightarrow> Inr (join_with '','' texts))"
| "to_property_key (JObject ps) =
     (if map_of ps ''toString'' = None then Inr ''[object Object]'' else Inl TypeError)"
| "element_texts [] = Inr []"
| "element_texts (v # vs) =
     (case (if v = JNull \<or> v = JUndefined then Inr [] else to_property_key v) of
        Inl e \<Rightarrow> Inl e
      | Inr text \<Rightarrow>
          (case element_texts vs of
             Inl e \<Rightarrow> Inl e
           | Inr texts \<Rightarrow> Inr (text # texts)))"

text \<open>
  The properties every plain object inherits from \<^verbatim>\<open>Object.prototype\<close>. All of them
  are functions. The accessor \<^verbatim>\<open>__proto__\<close> is a twelfth in a browser; Deno deletes
  it when it starts, so there \<^verbatim>\<open>__proto__\<close> is a name like any other. Whether the
  platform has the accessor is the first argument of \<open>inherited\<close>.
\<close>

definition Object_prototype_members :: "string list" where
  "Object_prototype_members =
     [''constructor'', ''__defineGetter__'', ''__defineSetter__'', ''hasOwnProperty'',
      ''__lookupGetter__'', ''__lookupSetter__'', ''isPrototypeOf'', ''propertyIsEnumerable'',
      ''toString'', ''valueOf'', ''toLocaleString'']"

definition inherited :: "bool \<Rightarrow> string \<Rightarrow> bool" where
  "inherited proto_accessor name =
     (name \<in> set Object_prototype_members \<or> (proto_accessor \<and> name = ''__proto__''))"

fun is_object :: "js_value \<Rightarrow> bool" where
  "is_object (JArray vs) = True"
| "is_object (JObject ps) = True"
| "is_object v = False"

text \<open>
  What happens when the dispatch code calls an inherited property as if it were a
  handler, \<^verbatim>\<open>handler(data, ...)\<close>, so with \<^verbatim>\<open>this\<close> undefined. \<^verbatim>\<open>constructor\<close> is
  \<^verbatim>\<open>Object\<close> and \<^verbatim>\<open>toString\<close> prints \<^verbatim>\<open>[object Undefined]\<close>: both return.
  \<^verbatim>\<open>isPrototypeOf\<close> returns false when its argument is no object, before it looks at
  \<^verbatim>\<open>this\<close>. Every other function converts \<^verbatim>\<open>this\<close> to an object, which is a TypeError
  for undefined, and the value of \<^verbatim>\<open>__proto__\<close> is \<^verbatim>\<open>Object.prototype\<close>, which is not
  a function: calling it is a TypeError too. None of them changes anything.
\<close>

definition call_inherited :: "string \<Rightarrow> js_value \<Rightarrow> unit completion" where
  "call_inherited name data =
     (if name = ''constructor'' \<or> name = ''toString'' then Normal ()
      else if name = ''isPrototypeOf'' \<and> \<not> is_object data then Normal ()
      else Throw TypeError)"

subsection \<open>The WebSocket of the platform\<close>

datatype ready_state = CONNECTING | OPEN | CLOSING | CLOSED

text \<open>
  The state of one WebSocket: its \<^verbatim>\<open>readyState\<close> and the frames it has handed to the
  connection, oldest first.
\<close>

record websocket =
  readyState :: ready_state
  sent :: "string list"

text \<open>
  \<^verbatim>\<open>socket.send(data)\<close>, as the WebSocket standard defines it: an InvalidStateError
  while the socket is still connecting; the frame goes out when the socket is open;
  on a closing or closed socket the call returns and the frame is dropped.
\<close>

definition ws_send :: "string \<Rightarrow> 'a websocket_scheme \<Rightarrow> js_error + 'a websocket_scheme" where
  "ws_send payload ws =
     (if readyState ws = CONNECTING then Inl InvalidStateError
      else if readyState ws = OPEN then Inr (ws\<lparr>sent := sent ws @ [payload]\<rparr>)
      else Inr ws)"

text \<open>
  \<^verbatim>\<open>socket.close()\<close> with no argument never throws: a connecting or open socket starts
  closing, a closing or closed one is left as it is.
\<close>

definition ws_close :: "'a websocket_scheme \<Rightarrow> 'a websocket_scheme" where
  "ws_close ws =
     (if readyState ws = CONNECTING \<or> readyState ws = OPEN then ws\<lparr>readyState := CLOSING\<rparr>
      else ws)"

text \<open>The handshake completes: the platform opens a connecting socket.\<close>

definition ws_open :: "'a websocket_scheme \<Rightarrow> 'a websocket_scheme" where
  "ws_open ws = (if readyState ws = CONNECTING then ws\<lparr>readyState := OPEN\<rparr> else ws)"

subsection \<open>Property keys and the object that holds the sockets\<close>

text \<open>
  \<^verbatim>\<open>SocketGroupKey = string | number | symbol\<close>. A JavaScript object has string keys and
  symbol keys only: a number used as a key is the string JavaScript prints for it, so a
  number key is the \<open>StringKey\<close> of its text. The state keeps the own properties of the
  group's object \<^verbatim>\<open>_sockets\<close>, in the order they were created: the assignment
  \<^verbatim>\<open>_sockets[k] = socket\<close> is \<open>AList.update\<close> (an existing property keeps its place, a
  new one goes last) and \<^verbatim>\<open>delete _sockets[k]\<close> is \<open>AList.delete\<close>. \<^verbatim>\<open>_sockets\<close> is created
  as \<^verbatim>\<open>{}\<close>, so reading \<^verbatim>\<open>_sockets[k]\<close> finds an own property first and then what
  \<^verbatim>\<open>Object.prototype\<close> has under that name (\<open>sockets_get\<close> below).
\<close>

datatype socket_group_key = StringKey string | SymbolKey nat

definition is_digit :: "char \<Rightarrow> bool" where
  "is_digit c = (48 \<le> (of_char c :: nat) \<and> (of_char c :: nat) \<le> 57)"

text \<open>
  An array index is the canonical decimal text of a number below \<open>2^32 - 1\<close>:
  digits only, no leading zero but for \<^verbatim>\<open>0\<close> itself.
\<close>

definition array_index :: "string \<Rightarrow> nat option" where
  "array_index s =
     (if s = [] \<or> \<not> list_all is_digit s \<or> (1 < length s \<and> hd s = CHR ''0'') then None
      else (let n = foldl (\<lambda>a c. 10 * a + (of_char c - 48)) (0::nat) s
            in if n < 2 ^ 32 - 1 then Some n else None))"

fun index_entries :: "(socket_group_key \<times> 'v) list \<Rightarrow> (nat \<times> 'v) list" where
  "index_entries [] = []"
| "index_entries ((StringKey s, v) # ps) =
     (case array_index s of
        Some n \<Rightarrow> (n, v) # index_entries ps
      | None \<Rightarrow> index_entries ps)"
| "index_entries ((SymbolKey y, v) # ps) = index_entries ps"

fun named_entries :: "(socket_group_key \<times> 'v) list \<Rightarrow> 'v list" where
  "named_entries [] = []"
| "named_entries ((StringKey s, v) # ps) =
     (case array_index s of
        Some n \<Rightarrow> named_entries ps
      | None \<Rightarrow> v # named_entries ps)"
| "named_entries ((SymbolKey y, v) # ps) = named_entries ps"

text \<open>
  \<^verbatim>\<open>Object.values(obj)\<close>: the values of the string-keyed properties, those whose key is
  an array index first, by ascending index, then the others in the order they were
  created. Properties with a symbol key are not among them.
\<close>

definition Object_values :: "(socket_group_key \<times> 'v) list \<Rightarrow> 'v list" where
  "Object_values obj = map snd (sort_key fst (index_entries obj)) @ named_entries obj"

subsection \<open>The socket group of server.ts\<close>

text \<open>
  A handler and a lifecycle callback are functions the user wrote; the model knows them
  by name and takes what they do as a parameter (\<open>call\<close> below). A handler table is
  given by its own properties, the handlers the user put in it; it is a plain object,
  as in the documentation's examples, so the lookup \<^verbatim>\<open>handlers[name]\<close> finds an own
  handler first and then what \<^verbatim>\<open>Object.prototype\<close> has under that name.
\<close>

datatype handler = Handler nat

datatype callback = Callback nat

type_synonym handler_table = "string \<Rightarrow> handler option"

datatype table_entry = OwnHandler handler | InheritedMember string

definition table_get :: "bool \<Rightarrow> handler_table \<Rightarrow> string \<Rightarrow> table_entry option" where
  "table_get proto_accessor handlers name =
     (case handlers name of
        Some handler \<Rightarrow> Some (OwnHandler handler)
      | None \<Rightarrow> if inherited proto_accessor name then Some (InheritedMember name) else None)"

record create_socket_opts =
  onOpen :: "callback option"
  onClose :: "callback option"
  onError :: "callback option"

text \<open>
  A socket of the group: the WebSocket and the event handlers the group has installed
  on it. Each handler is a closure; the model keeps what the closure captured: the key
  for \<^verbatim>\<open>onopen\<close>, \<^verbatim>\<open>onclose\<close> and \<^verbatim>\<open>onerror\<close>, the key and the handler table for
  \<^verbatim>\<open>onmessage\<close>. \<open>None\<close> is a handler that was never set.
\<close>

record server_socket = websocket +
  onopen :: "socket_group_key option"
  onclose :: "socket_group_key option"
  onerror :: "socket_group_key option"
  onmessage :: "(socket_group_key \<times> handler_table) option"

datatype log_entry = CouldNotParse string js_error | CouldNotSerialize string js_error

text \<open>
  The state a socket group lives in: the options it was created with, the object
  \<^verbatim>\<open>_sockets\<close> (keys to addresses), the store of WebSocket objects with the next free
  address, and what has been written with \<^verbatim>\<open>console.error\<close>.
\<close>

record socket_group =
  opts :: create_socket_opts
  sockets :: "(socket_group_key \<times> nat) list"
  heap :: "nat \<Rightarrow> server_socket"
  next_ref :: nat
  console :: "log_entry list"

definition new_socket :: server_socket where
  "new_socket = \<lparr>readyState = CONNECTING, sent = [],
     onopen = None, onclose = None, onerror = None, onmessage = None\<rparr>"

definition createSocketGroup :: "create_socket_opts \<Rightarrow> socket_group" where
  "createSocketGroup options =
     \<lparr>opts = options, sockets = [], heap = (\<lambda>r. new_socket), next_ref = 0, console = []\<rparr>"

text \<open>
  The request, as far as \<^verbatim>\<open>Deno.upgradeWebSocket\<close> looks at it: whether it carries the
  headers of a WebSocket upgrade.
\<close>

record request =
  websocket_upgrade :: bool

datatype response = SwitchingProtocols

text \<open>
  \<^verbatim>\<open>Deno.upgradeWebSocket(req, denoOpts)\<close>: a TypeError on a request that is no upgrade;
  otherwise a new WebSocket, still connecting (it opens once the response has been
  returned to the client), and the response.
\<close>

definition upgradeWebSocket ::
  "request \<Rightarrow> socket_group \<Rightarrow> js_error + (nat \<times> response \<times> socket_group)" where
  "upgradeWebSocket req g =
     (if websocket_upgrade req then
        Inr (next_ref g, SwitchingProtocols,
             g\<lparr>heap := (heap g)(next_ref g := new_socket), next_ref := Suc (next_ref g)\<rparr>)
      else Inl TypeError)"

definition update_socket :: "nat \<Rightarrow> (server_socket \<Rightarrow> server_socket) \<Rightarrow> socket_group \<Rightarrow> socket_group" where
  "update_socket r f g = g\<lparr>heap := (heap g)(r := f (heap g r))\<rparr>"

text \<open>
  What \<^verbatim>\<open>_sockets[k]\<close> evaluates to when it is not undefined: a socket of the group, by
  its address, or a function inherited from \<^verbatim>\<open>Object.prototype\<close>, by its name.
\<close>

datatype js_object = WebSocket nat | PrototypeMember string

text \<open>
  The group runs on Deno (\<open>addSocket\<close> calls \<^verbatim>\<open>Deno.upgradeWebSocket\<close>), where
  \<^verbatim>\<open>Object.prototype\<close> has no \<^verbatim>\<open>__proto__\<close>. No property of \<^verbatim>\<open>Object.prototype\<close> has a
  symbol for its key.
\<close>

definition sockets_get :: "socket_group \<Rightarrow> socket_group_key \<Rightarrow> js_object option" where
  "sockets_get g k =
     (case map_of (sockets g) k of
        Some socket \<Rightarrow> Some (WebSocket socket)
      | None \<Rightarrow>
          (case k of
             StringKey name \<Rightarrow> if inherited False name then Some (PrototypeMember name) else None
           | SymbolKey y \<Rightarrow> None))"

definition getSocket ::
  "socket_group_key \<Rightarrow> socket_group \<Rightarrow> js_object option completion \<times> socket_group" where
  "getSocket k g =
     (case sockets_get g k of
        None \<Rightarrow> (Normal None, g)
      | Some socket \<Rightarrow> (Normal (Some socket), g))"

text \<open>
  \<^verbatim>\<open>socket.close()\<close> on an inherited function is a TypeError: no function has a property
  \<^verbatim>\<open>close\<close>. The \<^verbatim>\<open>delete\<close> after it is not reached.
\<close>

definition removeSocket :: "socket_group_key \<Rightarrow> socket_group \<Rightarrow> unit completion \<times> socket_group" where
  "removeSocket k g =
     (case sockets_get g k of
        Some (WebSocket socket) \<Rightarrow>
          (Normal (), (update_socket socket ws_close g)\<lparr>sockets := AList.delete k (sockets g)\<rparr>)
      | Some (PrototypeMember name) \<Rightarrow> (Throw TypeError, g)
      | None \<Rightarrow> (Normal (), g))"

text \<open>
  \<open>addSocket\<close>. When \<^verbatim>\<open>group.removeSocket(key)\<close> throws, the socket that was just created
  is never stored.
\<close>

definition addSocket ::
  "socket_group_key \<Rightarrow> request \<Rightarrow> socket_group \<Rightarrow> response completion \<times> socket_group" where
  "addSocket key req g =
     (case upgradeWebSocket req g of
        Inl e \<Rightarrow> (Throw e, g)
      | Inr (socket, response, g0) \<Rightarrow>
          (let g1 = (if onOpen (opts g0) \<noteq> None
                     then update_socket socket (\<lambda>ws. ws\<lparr>onopen := Some key\<rparr>) g0 else g0);
               g2 = (if onClose (opts g1) \<noteq> None
                     then update_socket socket (\<lambda>ws. ws\<lparr>onclose := Some key\<rparr>) g1 else g1)
           in if onError (opts g2) \<noteq> None then
                (case removeSocket key g2 of
                   (Throw e, g3) \<Rightarrow> (Throw e, g3)
                 | (Normal u, g3) \<Rightarrow>
                     (let g4 = update_socket socket (\<lambda>ws. ws\<lparr>onerror := Some key\<rparr>) g3
                      in (Normal response, g4\<lparr>sockets := AList.update key socket (sockets g4)\<rparr>)))
              else (Normal response, g2\<lparr>sockets := AList.update key socket (sockets g2)\<rparr>)))"

text \<open>
  The state in which \<open>addSocket\<close> reaches its test of \<^verbatim>\<open>opts.onError\<close> when the request
  upgrades: the new socket is in the store, at the address that was free, with the
  \<^verbatim>\<open>onopen\<close> and \<^verbatim>\<open>onclose\<close> handlers the options ask for, and \<^verbatim>\<open>_sockets\<close> is what it
  was.
\<close>

definition created :: "socket_group_key \<Rightarrow> socket_group \<Rightarrow> socket_group" where
  "created key g =
     (let socket = next_ref g;
          g0 = g\<lparr>heap := (heap g)(next_ref g := new_socket), next_ref := Suc (next_ref g)\<rparr>;
          g1 = (if onOpen (opts g0) \<noteq> None
                then update_socket socket (\<lambda>ws. ws\<lparr>onopen := Some key\<rparr>) g0 else g0)
      in if onClose (opts g1) \<noteq> None
         then update_socket socket (\<lambda>ws. ws\<lparr>onclose := Some key\<rparr>) g1 else g1)"

text \<open>
  The closure \<^verbatim>\<open>setHandlersForSocket\<close> installs as \<^verbatim>\<open>socket.onmessage\<close>, run on the text
  of one incoming message. \<open>call\<close> runs a handler of the user.
\<close>

definition group_onmessage ::
  "(string \<Rightarrow> js_error + js_value) \<Rightarrow>
   (handler \<Rightarrow> js_value \<Rightarrow> socket_group_key \<Rightarrow> socket_group \<Rightarrow> unit completion \<times> socket_group) \<Rightarrow>
   handler_table \<Rightarrow> socket_group_key \<Rightarrow> string \<Rightarrow> socket_group \<Rightarrow> unit completion \<times> socket_group" where
  "group_onmessage JSON_parse call handlers key event_data g =
     (case JSON_parse event_data of
        Inl e \<Rightarrow> (Normal (), g\<lparr>console := console g @ [CouldNotParse event_data e]\<rparr>)
      | Inr eventData \<Rightarrow>
          if \<not> truthy eventData then (Normal (), g)
          else (case to_property_key (get_member eventData ''key'') of
                  Inl e \<Rightarrow> (Throw e, g)
                | Inr name \<Rightarrow>
                    (case table_get False handlers name of
                       None \<Rightarrow> (Normal (), g)
                     | Some (OwnHandler handler) \<Rightarrow>
                         call handler (get_member eventData ''data'') key g
                     | Some (InheritedMember member) \<Rightarrow>
                         (call_inherited member (get_member eventData ''data''), g))))"

text \<open>
  \<open>setHandlersForSocket\<close>. On an inherited function the assignment
  \<^verbatim>\<open>socket.onmessage = ...\<close> gives that function a property and changes nothing of the
  group.
\<close>

definition setHandlersForSocket ::
  "socket_group_key \<Rightarrow> handler_table \<Rightarrow> socket_group \<Rightarrow> unit completion \<times> socket_group" where
  "setHandlersForSocket key handlers g =
     (case sockets_get g key of
        None \<Rightarrow> (Normal (), g)
      | Some (PrototypeMember name) \<Rightarrow> (Normal (), g)
      | Some (WebSocket socket) \<Rightarrow>
          (Normal (), update_socket socket (\<lambda>ws. ws\<lparr>onmessage := Some (key, handlers)\<rparr>) g))"

text \<open>
  The platform delivers a message to the socket at an address: it runs the socket's
  \<^verbatim>\<open>onmessage\<close> handler, if one is set.
\<close>

definition message_event ::
  "(string \<Rightarrow> js_error + js_value) \<Rightarrow>
   (handler \<Rightarrow> js_value \<Rightarrow> socket_group_key \<Rightarrow> socket_group \<Rightarrow> unit completion \<times> socket_group) \<Rightarrow>
   nat \<Rightarrow> string \<Rightarrow> socket_group \<Rightarrow> unit completion \<times> socket_group" where
  "message_event JSON_parse call r event_data g =
     (case onmessage (heap g r) of
        None \<Rightarrow> (Normal (), g)
      | Some (key, handlers) \<Rightarrow> group_onmessage JSON_parse call handlers key event_data g)"

text \<open>
  The handshake of the socket at an address completes: the socket opens and its
  \<^verbatim>\<open>onopen\<close> handler, the closure \<^verbatim>\<open>() => opts?.onOpen?.(key)\<close>, runs if it was set.
  \<open>notify\<close> runs a callback of the user.
\<close>

definition open_event ::
  "(callback \<Rightarrow> socket_group_key \<Rightarrow> socket_group \<Rightarrow> unit completion \<times> socket_group) \<Rightarrow>
   nat \<Rightarrow> socket_group \<Rightarrow> unit completion \<times> socket_group" where
  "open_event notify r g =
     (let g1 = update_socket r ws_open g
      in case onopen (heap g1 r) of
           None \<Rightarrow> (Normal (), g1)
         | Some key \<Rightarrow>
             (case onOpen (opts g1) of
                None \<Rightarrow> (Normal (), g1)
              | Some f \<Rightarrow> notify f key g1))"

text \<open>
  The closure \<open>addSocket\<close> installs as \<^verbatim>\<open>socket.onclose\<close> when the group has an
  \<^verbatim>\<open>onClose\<close> option: it removes the socket's key from the group and then calls the
  user's callback.
\<close>

definition socket_onclose ::
  "(callback \<Rightarrow> socket_group_key \<Rightarrow> socket_group \<Rightarrow> unit completion \<times> socket_group) \<Rightarrow>
   socket_group_key \<Rightarrow> socket_group \<Rightarrow> unit completion \<times> socket_group" where
  "socket_onclose notify key g =
     (case removeSocket key g of
        (Throw e, g1) \<Rightarrow> (Throw e, g1)
      | (Normal u, g1) \<Rightarrow>
          (case onClose (opts g1) of
             None \<Rightarrow> (Normal (), g1)
           | Some f \<Rightarrow> notify f key g1))"

text \<open>
  The connection of the socket at an address has ended: the platform sets the socket
  closed and runs its \<^verbatim>\<open>onclose\<close> handler, if one is set.
\<close>

definition close_event ::
  "(callback \<Rightarrow> socket_group_key \<Rightarrow> socket_group \<Rightarrow> unit completion \<times> socket_group) \<Rightarrow>
   nat \<Rightarrow> socket_group \<Rightarrow> unit completion \<times> socket_group" where
  "close_event notify r g =
     (let g1 = update_socket r (\<lambda>ws. ws\<lparr>readyState := CLOSED\<rparr>) g
      in case onclose (heap g1 r) of
           None \<Rightarrow> (Normal (), g1)
         | Some key \<Rightarrow> socket_onclose notify key g1)"

text \<open>
  \<^verbatim>\<open>send(key, message)\<close>: nothing when \<^verbatim>\<open>_sockets[key]\<close> is undefined; otherwise the
  message is serialized and handed to \<^verbatim>\<open>socket.send\<close>. Neither step is guarded, so
  what either throws reaches the caller. On an inherited function \<^verbatim>\<open>socket.send\<close> is
  undefined: the argument is evaluated first, then the call is a TypeError.
  \<open>JSON_stringify\<close> stands for \<^verbatim>\<open>JSON.stringify\<close> with the result as \<^verbatim>\<open>socket.send\<close> takes
  it, a text.
\<close>

definition send ::
  "('m \<Rightarrow> js_error + string) \<Rightarrow> socket_group_key \<Rightarrow> 'm \<Rightarrow> socket_group \<Rightarrow>
   unit completion \<times> socket_group" where
  "send JSON_stringify key message g =
     (case sockets_get g key of
        None \<Rightarrow> (Normal (), g)
      | Some (PrototypeMember name) \<Rightarrow>
          (case JSON_stringify message of
             Inl e \<Rightarrow> (Throw e, g)
           | Inr serialized \<Rightarrow> (Throw TypeError, g))
      | Some (WebSocket socket) \<Rightarrow>
          (case JSON_stringify message of
             Inl e \<Rightarrow> (Throw e, g)
           | Inr serialized \<Rightarrow>
               (case ws_send serialized (heap g socket) of
                  Inl e \<Rightarrow> (Throw e, g)
                | Inr ws \<Rightarrow> (Normal (), g\<lparr>heap := (heap g)(socket := ws)\<rparr>))))"

text \<open>
  The loop of \<^verbatim>\<open>broadcast\<close> over the sockets \<^verbatim>\<open>Object.values(_sockets)\<close> listed when the
  loop began. Each round serializes the message and sends it; the first round that
  throws ends the loop, and what it threw reaches the caller.
\<close>

fun broadcast_loop ::
  "('m \<Rightarrow> js_error + string) \<Rightarrow> 'm \<Rightarrow> nat list \<Rightarrow> socket_group \<Rightarrow> unit completion \<times> socket_group" where
  "broadcast_loop JSON_stringify message [] g = (Normal (), g)"
| "broadcast_loop JSON_stringify message (socket # rest) g =
     (case JSON_stringify message of
        Inl e \<Rightarrow> (Throw e, g)
      | Inr serialized \<Rightarrow>
          (case ws_send serialized (heap g socket) of
             Inl e \<Rightarrow> (Throw e, g)
           | Inr ws \<Rightarrow> broadcast_loop JSON_stringify message rest (g\<lparr>heap := (heap g)(socket := ws)\<rparr>)))"

definition broadcast ::
  "('m \<Rightarrow> js_error + string) \<Rightarrow> 'm \<Rightarrow> socket_group \<Rightarrow> unit completion \<times> socket_group" where
  "broadcast JSON_stringify message g =
     broadcast_loop JSON_stringify message (Object_values (sockets g)) g"

subsection \<open>The client socket of client.ts\<close>

text \<open>
  What \<^verbatim>\<open>connect\<close> closes over: the WebSocket \<^verbatim>\<open>_socket\<close>, the variable \<^verbatim>\<open>_handlers\<close>
  (declared without a value, so undefined, \<open>None\<close>, until \<^verbatim>\<open>setHandlersForSocket\<close> assigns
  it) and what has been written with \<^verbatim>\<open>console.error\<close>.
\<close>

record client =
  socket :: websocket
  handlers :: "handler_table option"
  client_console :: "log_entry list"

definition connect :: client where
  "connect = \<lparr>socket = \<lparr>readyState = CONNECTING, sent = []\<rparr>, handlers = None, client_console = []\<rparr>"

text \<open>\<^verbatim>\<open>_socket.onopen\<close>: the platform has opened the socket; the promise resolves.\<close>

definition clientSocket_onopen :: "client \<Rightarrow> client" where
  "clientSocket_onopen c = c\<lparr>socket := ws_open (socket c)\<rparr>"

text \<open>
  \<^verbatim>\<open>clientSocket.send(message)\<close>: serialization is inside a try block; \<^verbatim>\<open>_socket.send\<close>
  is outside it. The catch block builds the text it logs from \<^verbatim>\<open>${message}\<close>, the
  message converted to a string (\<open>to_text\<close>), and that conversion can throw in its
  turn, for a message with no usable \<^verbatim>\<open>toString\<close>: then the error leaves \<open>send\<close> and
  nothing is logged.
\<close>

definition clientSocket_send ::
  "('m \<Rightarrow> js_error + string) \<Rightarrow> ('m \<Rightarrow> js_error + string) \<Rightarrow> 'm \<Rightarrow> client \<Rightarrow>
   unit completion \<times> client" where
  "clientSocket_send JSON_stringify to_text message c =
     (case JSON_stringify message of
        Inl e \<Rightarrow>
          (case to_text message of
             Inl e' \<Rightarrow> (Throw e', c)
           | Inr text \<Rightarrow>
               (Normal (), c\<lparr>client_console := client_console c @ [CouldNotSerialize text e]\<rparr>))
      | Inr serialized \<Rightarrow>
          (case ws_send serialized (socket c) of
             Inl e \<Rightarrow> (Throw e, c)
           | Inr ws \<Rightarrow> (Normal (), c\<lparr>socket := ws\<rparr>)))"

definition clientSocket_close :: "client \<Rightarrow> unit completion \<times> client" where
  "clientSocket_close c = (Normal (), c\<lparr>socket := ws_close (socket c)\<rparr>)"

definition clientSocket_setHandlersForSocket :: "handler_table \<Rightarrow> client \<Rightarrow> unit completion \<times> client" where
  "clientSocket_setHandlersForSocket hs c = (Normal (), c\<lparr>handlers := Some hs\<rparr>)"

text \<open>
  \<^verbatim>\<open>_socket.onmessage\<close>. Reading \<^verbatim>\<open>_handlers[key]\<close> while \<^verbatim>\<open>_handlers\<close> is undefined is a
  TypeError, whatever the key. The client runs in a browser or on Deno:
  \<open>proto_accessor\<close> says whether its \<^verbatim>\<open>Object.prototype\<close> has \<^verbatim>\<open>__proto__\<close>.
\<close>

definition clientSocket_onmessage ::
  "bool \<Rightarrow> (string \<Rightarrow> js_error + js_value) \<Rightarrow>
   (handler \<Rightarrow> js_value \<Rightarrow> client \<Rightarrow> unit completion \<times> client) \<Rightarrow>
   string \<Rightarrow> client \<Rightarrow> unit completion \<times> client" where
  "clientSocket_onmessage proto_accessor JSON_parse call event_data c =
     (case JSON_parse event_data of
        Inl e \<Rightarrow> (Normal (), c\<lparr>client_console := client_console c @ [CouldNotParse event_data e]\<rparr>)
      | Inr eventData \<Rightarrow>
          if \<not> truthy eventData then (Normal (), c)
          else (let key = get_member eventData ''key''; data = get_member eventData ''data''
                in case handlers c of
                     None \<Rightarrow> (Throw TypeError, c)
                   | Some hs \<Rightarrow>
                       (case to_property_key key of
                          Inl e \<Rightarrow> (Throw e, c)
                        | Inr name \<Rightarrow>
                            (case table_get proto_accessor hs name of
                               None \<Rightarrow> (Normal (), c)
                             | Some (OwnHandler handler) \<Rightarrow> call handler data c
                             | Some (InheritedMember member) \<Rightarrow>
                                 (call_inherited member data, c)))))"

subsection \<open>The invariant of a socket group\<close>

text \<open>
  What every group built with \<open>createSocketGroup\<close>, \<open>addSocket\<close> and \<open>removeSocket\<close>
  satisfies: \<^verbatim>\<open>_sockets\<close> has each key once, no socket is stored under two keys, and
  every stored address has been allocated.
\<close>

definition group_inv :: "socket_group \<Rightarrow> bool" where
  "group_inv g =
     (distinct (map fst (sockets g)) \<and> distinct (map snd (sockets g)) \<and>
      list_all (\<lambda>r. r < next_ref g) (map snd (sockets g)))"

subsection \<open>Example inputs\<close>

text \<open>
  The inputs the examples below run on. \<^verbatim>\<open>createSocketGroup()\<close> takes \<^verbatim>\<open>opts = {}\<close> when
  it is called without options.
\<close>

definition default_opts :: create_socket_opts where
  "default_opts = \<lparr>onOpen = None, onClose = None, onError = None\<rparr>"

definition opts_with_onError :: create_socket_opts where
  "opts_with_onError = \<lparr>onOpen = None, onClose = None, onError = Some (Callback 0)\<rparr>"

definition upgrade_request :: request where
  "upgrade_request = \<lparr>websocket_upgrade = True\<rparr>"

text \<open>The message \<^verbatim>\<open>{ key: "ping", data: null }\<close> and its JSON text.\<close>

definition ping :: js_value where
  "ping = JObject [(''key'', JString ''ping''), (''data'', JNull)]"

definition ping_text :: string where
  \<open>ping_text = ''{"key":"ping","data":null}''\<close>

text \<open>A handler table with one handler, for \<^verbatim>\<open>ping\<close>.\<close>

definition ping_handlers :: handler_table where
  "ping_handlers = [''ping'' \<mapsto> Handler 0]"

text \<open>
  Groups right after registration, before any handshake has completed: one socket
  under \<^verbatim>\<open>"a"\<close>; three sockets under \<^verbatim>\<open>"a"\<close>, \<^verbatim>\<open>"b"\<close>, \<^verbatim>\<open>"c"\<close>; and the same three in a
  group created with an \<^verbatim>\<open>onError\<close> option.
\<close>

definition group_a :: socket_group where
  "group_a = snd (addSocket (StringKey ''a'') upgrade_request (createSocketGroup default_opts))"

definition group_abc :: socket_group where
  "group_abc =
     snd (addSocket (StringKey ''c'') upgrade_request
       (snd (addSocket (StringKey ''b'') upgrade_request group_a)))"

definition group_abc_onError :: socket_group where
  "group_abc_onError =
     snd (addSocket (StringKey ''c'') upgrade_request
       (snd (addSocket (StringKey ''b'') upgrade_request
         (snd (addSocket (StringKey ''a'') upgrade_request
           (createSocketGroup opts_with_onError))))))"

text \<open>A group created with an \<^verbatim>\<open>onClose\<close> option, one socket under \<^verbatim>\<open>"a"\<close>.\<close>

definition opts_with_onClose :: create_socket_opts where
  "opts_with_onClose = \<lparr>onOpen = None, onClose = Some (Callback 1), onError = None\<rparr>"

definition group_a_onClose :: socket_group where
  "group_a_onClose =
     snd (addSocket (StringKey ''a'') upgrade_request (createSocketGroup opts_with_onClose))"

text \<open>
  The handshakes of the sockets at the given addresses complete, one after the other;
  the user's callbacks do nothing.
\<close>

definition opened :: "nat list \<Rightarrow> socket_group \<Rightarrow> socket_group" where
  "opened rs g = foldl (\<lambda>g r. snd (open_event (\<lambda>f k g. (Normal (), g)) r g)) g rs"

text \<open>
  The group with one socket under \<^verbatim>\<open>"a"\<close>, open, with the \<^verbatim>\<open>ping\<close> handlers set for it.
\<close>

definition group_a_listening :: socket_group where
  "group_a_listening =
     snd (setHandlersForSocket (StringKey ''a'') ping_handlers (opened [0] group_a))"

text \<open>The message \<^verbatim>\<open>{ key: "unknown_tag", data: {} }\<close>.\<close>

definition unknown_tag :: js_value where
  "unknown_tag = JObject [(''key'', JString ''unknown_tag''), (''data'', JObject [])]"

text \<open>
  A group created without options in which one socket is registered under the key
  \<^verbatim>\<open>"toString"\<close>, the name of a function every object inherits.
\<close>

definition group_toString :: socket_group where
  "group_toString =
     snd (addSocket (StringKey ''toString'') upgrade_request (createSocketGroup default_opts))"

text \<open>
  Three messages that are JSON but not \<^verbatim>\<open>{ key, data }\<close> with a handler's key:
  \<^verbatim>\<open>{ key: "ping" }\<close>, which has no data; \<^verbatim>\<open>{ data: 5 }\<close>, which has no key; and
  \<^verbatim>\<open>{ key: "hasOwnProperty", data: {} }\<close>, whose key no handler table of the examples has.
\<close>

definition ping_without_data :: js_value where
  "ping_without_data = JObject [(''key'', JString ''ping'')]"

definition data_without_key :: js_value where
  "data_without_key = JObject [(''data'', JNumber ''5'')]"

definition hasOwnProperty_message :: js_value where
  "hasOwnProperty_message = JObject [(''key'', JString ''hasOwnProperty''), (''data'', JObject [])]"

text \<open>
  A handler that needs its data, as \<^verbatim>\<open>(data) => data.text\<close> does: it throws a TypeError
  when the data is undefined. On the server and on the client.
\<close>

definition reads_data ::
  "handler \<Rightarrow> js_value \<Rightarrow> socket_group_key \<Rightarrow> socket_group \<Rightarrow> unit completion \<times> socket_group" where
  "reads_data h data key g = (if data = JUndefined then Throw TypeError else Normal (), g)"

definition client_reads_data ::
  "handler \<Rightarrow> js_value \<Rightarrow> client \<Rightarrow> unit completion \<times> client" where
  "client_reads_data h data c = (if data = JUndefined then Throw TypeError else Normal (), c)"

text \<open>An open client with the \<^verbatim>\<open>ping\<close> handlers set.\<close>

definition client_listening :: client where
  "client_listening =
     snd (clientSocket_setHandlersForSocket ping_handlers (clientSocket_onopen connect))"

section \<open>Properties\<close>

subsection \<open>\<open>Object.values\<close>\<close>

lemma subset_add_mset_right: "A \<subseteq># B \<Longrightarrow> A \<subseteq># add_mset v B"
  by (meson multi_psub_of_add_self subset_mset.le_less subset_mset.le_less_trans)

lemma mset_entries:
  "mset (map snd (index_entries obj)) + mset (named_entries obj) \<subseteq># mset (map snd obj)"
proof (induction obj rule: index_entries.induct)
  case 1
  show ?case by simp
next
  case (2 s v ps)
  then show ?case by (cases "array_index s") auto
next
  case (3 y v ps)
  then show ?case by (simp add: subset_add_mset_right)
qed

lemma mset_Object_values: "mset (Object_values obj) \<subseteq># mset (map snd obj)"
proof -
  have "mset (map snd (sort_key fst (index_entries obj))) = mset (map snd (index_entries obj))"
    by (metis mset_map mset_sort)
  then show ?thesis
    using mset_entries [of obj] by (simp add: Object_values_def)
qed

text \<open>A socket stored under a symbol key is not listed.\<close>

lemma Object_values_symbol_key:
  "Object_values ((SymbolKey y, v) # obj) = Object_values obj"
  by (simp add: Object_values_def)

text \<open>No socket is listed twice when no socket is stored twice.\<close>

lemma distinct_Object_values:
  assumes "distinct (map snd obj)"
  shows "distinct (Object_values obj)"
proof -
  have "count (mset (Object_values obj)) a \<le> 1" for a
  proof -
    have "count (mset (Object_values obj)) a \<le> count (mset (map snd obj)) a"
      using mset_Object_values [of obj] by (rule mset_subset_eq_count)
    also have "\<dots> \<le> 1"
      using assms by (simp add: distinct_count_atmost_1)
    finally show ?thesis .
  qed
  then show ?thesis
    unfolding distinct_count_atmost_1
    by (metis count_mset_0_iff le_antisym less_one not_le_imp_less)
qed

lemma set_index_entries:
  "snd ` set (index_entries obj) =
     {v. \<exists>s n. (StringKey s, v) \<in> set obj \<and> array_index s = Some n}"
  by (induction obj rule: index_entries.induct) (auto split: option.splits simp: image_iff)

lemma set_named_entries:
  "set (named_entries obj) = {v. \<exists>s. (StringKey s, v) \<in> set obj \<and> array_index s = None}"
  by (induction obj rule: named_entries.induct) (auto split: option.splits)

text \<open>The values listed are exactly those stored under a string key.\<close>

lemma set_Object_values:
  "set (Object_values obj) = {v. \<exists>s. (StringKey s, v) \<in> set obj}"
proof -
  have "set (Object_values obj) = snd ` set (index_entries obj) \<union> set (named_entries obj)"
    by (simp add: Object_values_def)
  also have "\<dots> = {v. \<exists>s. (StringKey s, v) \<in> set obj}" (is "?L = ?R")
  proof (intro set_eqI iffI)
    fix v assume "v \<in> ?L"
    then show "v \<in> ?R" unfolding set_index_entries set_named_entries by blast
  next
    fix v assume "v \<in> ?R"
    then obtain s where s: "(StringKey s, v) \<in> set obj" by blast
    show "v \<in> ?L"
      unfolding set_index_entries set_named_entries
      using s by (cases "array_index s") blast+
  qed
  finally show ?thesis .
qed

subsection \<open>The loop of \<open>broadcast\<close>\<close>

lemma broadcast_loop_append:
  "broadcast_loop str m (xs @ ys) g =
     (case broadcast_loop str m xs g of
        (Normal u, g1) \<Rightarrow> broadcast_loop str m ys g1
      | (Throw e, g1) \<Rightarrow> (Throw e, g1))"
  by (induction xs arbitrary: g) (auto split: sum.splits)

lemma broadcast_loop_not_connecting:
  assumes "str m = Inr s" "distinct rs" "\<forall>r\<in>set rs. readyState (heap g r) \<noteq> CONNECTING"
  shows "broadcast_loop str m rs g =
     (Normal (), g\<lparr>heap := (\<lambda>r. if r \<in> set rs \<and> readyState (heap g r) = OPEN
                               then (heap g r)\<lparr>sent := sent (heap g r) @ [s]\<rparr>
                               else heap g r)\<rparr>)"
  using assms
proof (induction rs arbitrary: g)
  case Nil
  then show ?case by simp
next
  case (Cons r rs)
  obtain w where w: "ws_send s (heap g r) = Inr w"
    and w_def: "w = (if readyState (heap g r) = OPEN then (heap g r)\<lparr>sent := sent (heap g r) @ [s]\<rparr> else heap g r)"
    using Cons.prems by (simp add: ws_send_def)
  let ?g = "g\<lparr>heap := (heap g)(r := w)\<rparr>"
  have "\<forall>x\<in>set rs. readyState (heap ?g x) \<noteq> CONNECTING"
    using Cons.prems by auto
  then have "broadcast_loop str m rs ?g =
     (Normal (), ?g\<lparr>heap := (\<lambda>x. if x \<in> set rs \<and> readyState (heap ?g x) = OPEN
                               then (heap ?g x)\<lparr>sent := sent (heap ?g x) @ [s]\<rparr>
                               else heap ?g x)\<rparr>)"
    using Cons.IH [of ?g] Cons.prems by simp
  moreover have "(\<lambda>x. if x \<in> set rs \<and> readyState (heap ?g x) = OPEN
                               then (heap ?g x)\<lparr>sent := sent (heap ?g x) @ [s]\<rparr>
                               else heap ?g x) =
     (\<lambda>x. if x \<in> set (r # rs) \<and> readyState (heap g x) = OPEN
                               then (heap g x)\<lparr>sent := sent (heap g x) @ [s]\<rparr>
                               else heap g x)"
    using Cons.prems w_def by (auto simp: fun_eq_iff)
  ultimately show ?case
    using Cons.prems w by simp
qed

subsection \<open>The invariant is kept\<close>

lemma snd_set_update: "snd ` set (AList.update k v al) \<subseteq> insert v (snd ` set al)"
  by (induction al) auto

lemma distinct_snd_update:
  assumes "distinct (map snd al)" "v \<notin> snd ` set al"
  shows "distinct (map snd (AList.update k v al))"
  using assms
proof (induction al)
  case Nil
  then show ?case by simp
next
  case (Cons p al)
  have "snd p \<notin> snd ` set (AList.update k v al)"
    using Cons.prems snd_set_update [of k v al] by auto
  then show ?case
    using Cons by auto
qed

lemma distinct_snd_delete: "distinct (map snd al) \<Longrightarrow> distinct (map snd (AList.delete k al))"
  by (simp add: AList.delete_eq distinct_map_filter)

lemma set_delete_subset: "set (AList.delete k al) \<subseteq> set al"
  by (auto simp: AList.delete_eq)

lemma delete_absent: "map_of al k = None \<Longrightarrow> AList.delete k al = al"
  by (induction al) (auto split: if_splits)

lemma group_inv_fresh: "group_inv g \<Longrightarrow> (k, r) \<in> set (sockets g) \<Longrightarrow> r < next_ref g"
  by (auto simp: group_inv_def list_all_iff)

lemma group_inv_lookup: "group_inv g \<Longrightarrow> map_of (sockets g) k = Some r \<Longrightarrow> r < next_ref g"
  by (blast dest: map_of_SomeD group_inv_fresh)

lemma group_inv_createSocketGroup: "group_inv (createSocketGroup options)"
  by (simp add: group_inv_def createSocketGroup_def)

lemma group_inv_update_socket: "group_inv (update_socket r f g) = group_inv g"
  by (simp add: group_inv_def update_socket_def)

lemma group_inv_store:
  assumes "group_inv g" "sockets g' = AList.update k (next_ref g) (sockets g)" "next_ref g' = Suc (next_ref g)"
  shows "group_inv g'"
proof -
  have fresh: "next_ref g \<notin> snd ` set (sockets g)"
    using assms(1) by (auto dest: group_inv_fresh)
  have "distinct (map fst (sockets g'))"
    using assms by (simp add: group_inv_def distinct_update)
  moreover have "distinct (map snd (sockets g'))"
    using assms fresh by (simp add: group_inv_def distinct_snd_update)
  moreover have "\<forall>r \<in> snd ` set (sockets g'). r < next_ref g'"
  proof
    fix r assume "r \<in> snd ` set (sockets g')"
    then have "r = next_ref g \<or> r \<in> snd ` set (sockets g)"
      using snd_set_update [of k "next_ref g" "sockets g"] assms(2) by auto
    then show "r < next_ref g'"
      using assms(1,3) by (auto dest: group_inv_fresh)
  qed
  ultimately show ?thesis
    by (simp add: group_inv_def list_all_iff)
qed

lemma group_inv_delete:
  assumes "group_inv g" "sockets g' = AList.delete k (sockets g)" "next_ref g' = next_ref g"
  shows "group_inv g'"
  using assms set_delete_subset [of k "sockets g"]
  by (auto simp: group_inv_def distinct_delete distinct_snd_delete list_all_iff)

subsection \<open>Reading \<open>_sockets[k]\<close>\<close>

lemma sockets_get_WebSocket:
  "sockets_get g k = Some (WebSocket r) \<longleftrightarrow> map_of (sockets g) k = Some r"
  by (auto simp: sockets_get_def split: option.splits socket_group_key.splits)

lemma sockets_get_cong: "sockets g' = sockets g \<Longrightarrow> sockets_get g' k = sockets_get g k"
  by (simp add: sockets_get_def)

lemma sockets_get_member:
  "sockets_get g k = Some (PrototypeMember name) \<longleftrightarrow>
     map_of (sockets g) k = None \<and> k = StringKey name \<and> inherited False name"
  by (auto simp: sockets_get_def split: option.splits socket_group_key.splits)

lemma sockets_get_None:
  "sockets_get g k = None \<longleftrightarrow>
     map_of (sockets g) k = None \<and> (\<forall>name. k = StringKey name \<longrightarrow> \<not> inherited False name)"
  by (auto simp: sockets_get_def split: option.splits socket_group_key.splits)

lemma getSocket_WebSocket:
  "fst (getSocket k g) = Normal (Some (WebSocket r)) \<longleftrightarrow> map_of (sockets g) k = Some r"
  by (cases "sockets_get g k") (auto simp: getSocket_def sockets_get_WebSocket [symmetric])

lemma getSocket_None: "fst (getSocket k g) = Normal None \<longleftrightarrow> sockets_get g k = None"
  by (simp add: getSocket_def split: option.splits)


lemma removeSocket_frame:
  "next_ref (snd (removeSocket k g)) = next_ref g \<and> opts (snd (removeSocket k g)) = opts g \<and>
   console (snd (removeSocket k g)) = console g"
  by (simp add: removeSocket_def update_socket_def split: option.splits js_object.splits)

lemma removeSocket_own:
  "map_of (sockets g) k = Some r \<Longrightarrow>
   removeSocket k g =
     (Normal (), (update_socket r ws_close g)\<lparr>sockets := AList.delete k (sockets g)\<rparr>)"
  by (simp add: removeSocket_def sockets_get_WebSocket [symmetric])

lemma removeSocket_member:
  "sockets_get g k = Some (PrototypeMember name) \<Longrightarrow> removeSocket k g = (Throw TypeError, g)"
  by (simp add: removeSocket_def)

lemma removeSocket_None: "sockets_get g k = None \<Longrightarrow> removeSocket k g = (Normal (), g)"
  by (simp add: removeSocket_def)

subsection \<open>\<open>removeSocket\<close>, \<open>setHandlersForSocket\<close> and \<open>send\<close> keep the invariant\<close>

lemma group_inv_removeSocket: "group_inv g \<Longrightarrow> group_inv (snd (removeSocket k g))"
  by (auto simp: removeSocket_def update_socket_def split: option.splits js_object.splits
      intro: group_inv_delete)

lemma group_inv_setHandlersForSocket:
  "group_inv (snd (setHandlersForSocket k hs g)) = group_inv g"
  by (simp add: setHandlersForSocket_def group_inv_update_socket
      split: option.splits js_object.splits)

lemma group_inv_send: "group_inv (snd (send str k m g)) = group_inv g"
  by (simp add: send_def group_inv_def split: option.splits sum.splits js_object.splits)

text \<open>A request that is no upgrade is refused and nothing changes.\<close>

lemma addSocket_plain_request:
  "\<not> websocket_upgrade req \<Longrightarrow> addSocket k req g = (Throw TypeError, g)"
  by (simp add: addSocket_def upgradeWebSocket_def)

subsection \<open>What \<open>addSocket\<close> leaves behind\<close>

lemma created_fields:
  "sockets (created k g) = sockets g" "opts (created k g) = opts g"
  "next_ref (created k g) = Suc (next_ref g)" "console (created k g) = console g"
  "r \<noteq> next_ref g \<Longrightarrow> heap (created k g) r = heap g r"
  by (simp_all add: created_def Let_def update_socket_def)

lemma addSocket_upgraded:
  assumes "websocket_upgrade req"
  shows "addSocket k req g =
      (if onError (opts g) \<noteq> None then
         (case removeSocket k (created k g) of
            (Throw e, g3) \<Rightarrow> (Throw e, g3)
          | (Normal u, g3) \<Rightarrow>
              (Normal SwitchingProtocols,
               (update_socket (next_ref g) (\<lambda>ws. ws\<lparr>onerror := Some k\<rparr>) g3)
                 \<lparr>sockets := AList.update k (next_ref g) (sockets g3)\<rparr>))
       else (Normal SwitchingProtocols,
             (created k g)\<lparr>sockets := AList.update k (next_ref g) (sockets g)\<rparr>))"
proof -
  have up: "upgradeWebSocket req g =
      Inr (next_ref g, SwitchingProtocols,
           g\<lparr>heap := (heap g)(next_ref g := new_socket), next_ref := Suc (next_ref g)\<rparr>)"
    using assms by (simp add: upgradeWebSocket_def)
  show ?thesis
  proof (cases "onError (opts g)")
    case None
    then show ?thesis
      by (simp add: addSocket_def up created_def Let_def update_socket_def)
  next
    case (Some f)
    then show ?thesis
      by (cases "onOpen (opts g)"; cases "onClose (opts g)")
         (simp_all add: addSocket_def up created_def Let_def update_socket_def
            split: prod.splits completion.splits)
  qed
qed

lemma sockets_get_created: "sockets_get (created k' g) k = sockets_get g k"
  by (rule sockets_get_cong) (simp add: created_fields)

lemma sockets_get_cases:
  obtains (absent) "sockets_get g k = None" "map_of (sockets g) k = None"
  | (own) r where "sockets_get g k = Some (WebSocket r)" "map_of (sockets g) k = Some r"
  | (member) name where "sockets_get g k = Some (PrototypeMember name)"
      "map_of (sockets g) k = None"
proof (cases "sockets_get g k")
  case None
  moreover from None have "map_of (sockets g) k = None"
    by (simp add: sockets_get_None)
  ultimately show ?thesis by (rule absent)
next
  case (Some v)
  show ?thesis
  proof (cases v)
    case (WebSocket r)
    with Some have get: "sockets_get g k = Some (WebSocket r)" by simp
    then have "map_of (sockets g) k = Some r"
      by (simp add: sockets_get_WebSocket)
    with get show ?thesis by (rule own)
  next
    case (PrototypeMember name)
    with Some have get: "sockets_get g k = Some (PrototypeMember name)" by simp
    then have "map_of (sockets g) k = None"
      by (auto simp: sockets_get_member)
    with get show ?thesis by (rule member)
  qed
qed

lemma addSocket_no_onError:
  assumes "websocket_upgrade req" "onError (opts g) = None"
  shows "addSocket k req g =
    (Normal SwitchingProtocols,
     (created k g)\<lparr>sockets := AList.update k (next_ref g) (sockets g)\<rparr>)"
  using assms by (simp add: addSocket_upgraded)

lemma addSocket_onError_own:
  assumes "websocket_upgrade req" "onError (opts g) \<noteq> None" "map_of (sockets g) k = Some r"
  shows "addSocket k req g =
    (Normal SwitchingProtocols,
     (update_socket (next_ref g) (\<lambda>ws. ws\<lparr>onerror := Some k\<rparr>)
        (update_socket r ws_close (created k g)))
       \<lparr>sockets := AList.update k (next_ref g) (AList.delete k (sockets g))\<rparr>)"
proof -
  have "map_of (sockets (created k g)) k = Some r"
    using assms(3) by (simp add: created_fields)
  then have "removeSocket k (created k g) =
      (Normal (), (update_socket r ws_close (created k g))
         \<lparr>sockets := AList.delete k (sockets g)\<rparr>)"
    by (simp add: removeSocket_own created_fields)
  then show ?thesis
    using assms(1,2) by (simp add: addSocket_upgraded update_socket_def)
qed

lemma addSocket_onError_absent:
  assumes "websocket_upgrade req" "onError (opts g) \<noteq> None" "sockets_get g k = None"
  shows "addSocket k req g =
    (Normal SwitchingProtocols,
     (update_socket (next_ref g) (\<lambda>ws. ws\<lparr>onerror := Some k\<rparr>) (created k g))
       \<lparr>sockets := AList.update k (next_ref g) (sockets g)\<rparr>)"
proof -
  have "removeSocket k (created k g) = (Normal (), created k g)"
    using assms(3) by (simp add: removeSocket_None sockets_get_created)
  then show ?thesis
    using assms(1,2) by (simp add: addSocket_upgraded update_socket_def created_fields)
qed

lemma addSocket_throws:
  assumes "websocket_upgrade req" "onError (opts g) \<noteq> None"
    and "sockets_get g k = Some (PrototypeMember name)"
  shows "addSocket k req g = (Throw TypeError, created k g)"
proof -
  have "removeSocket k (created k g) = (Throw TypeError, created k g)"
    using assms(3) by (simp add: removeSocket_member sockets_get_created)
  then show ?thesis
    using assms(1,2) by (simp add: addSocket_upgraded)
qed

text \<open>
  \<open>addSocket\<close> returns normally when the request upgrades, unless the group has an
  \<open>onError\<close> option and the key, not a property of \<^verbatim>\<open>_sockets\<close> itself, is the name of an
  inherited function: then \<open>removeSocket\<close> throws.
\<close>

lemma addSocket_returns:
  "fst (addSocket k req g) = Normal resp \<longleftrightarrow>
     resp = SwitchingProtocols \<and> websocket_upgrade req \<and>
     (onError (opts g) = None \<or> (\<forall>name. sockets_get g k \<noteq> Some (PrototypeMember name)))"
proof (cases "websocket_upgrade req")
  case False
  then show ?thesis by (simp add: addSocket_plain_request)
next
  case True
  show ?thesis
  proof (cases "onError (opts g) = None")
    case None: True
    then show ?thesis
      using True by (auto simp: addSocket_no_onError)
  next
    case False
    show ?thesis
    proof (cases rule: sockets_get_cases [of g k])
      case absent
      then show ?thesis
        using True False by (auto simp: addSocket_onError_absent)
    next
      case (own r)
      then show ?thesis
        using True False by (auto simp: addSocket_onError_own)
    next
      case (member name)
      then show ?thesis
        using True False by (auto simp: addSocket_throws)
    qed
  qed
qed

lemma addSocket_sockets:
  assumes "fst (addSocket k req g) = Normal resp"
  shows "sockets (snd (addSocket k req g)) =
     AList.update k (next_ref g)
       (if onError (opts g) = None then sockets g else AList.delete k (sockets g))"
proof -
  have up: "websocket_upgrade req"
    and ok: "onError (opts g) = None \<or> (\<forall>name. sockets_get g k \<noteq> Some (PrototypeMember name))"
    using assms by (simp_all add: addSocket_returns)
  show ?thesis
  proof (cases "onError (opts g) = None")
    case True
    then show ?thesis
      using up by (simp add: addSocket_no_onError)
  next
    case False
    show ?thesis
    proof (cases rule: sockets_get_cases [of g k])
      case absent
      then show ?thesis
        using up False by (simp add: addSocket_onError_absent update_socket_def delete_absent)
    next
      case (own r)
      have "addSocket k req g =
        (Normal SwitchingProtocols,
         (update_socket (next_ref g) (\<lambda>ws. ws\<lparr>onerror := Some k\<rparr>)
            (update_socket r ws_close (created k g)))
           \<lparr>sockets := AList.update k (next_ref g) (AList.delete k (sockets g))\<rparr>)"
        using up False own(2) by (rule addSocket_onError_own)
      then show ?thesis
        using False by auto
    next
      case (member name)
      then show ?thesis
        using ok False by simp
    qed
  qed
qed

lemma addSocket_next_ref:
  assumes "websocket_upgrade req"
  shows "next_ref (snd (addSocket k req g)) = Suc (next_ref g)"
proof (cases "onError (opts g) = None")
  case True
  then show ?thesis
    using assms by (simp add: addSocket_no_onError created_fields)
next
  case False
  show ?thesis
  proof (cases rule: sockets_get_cases [of g k])
    case absent
    then show ?thesis
      using assms False by (simp add: addSocket_onError_absent update_socket_def created_fields)
  next
    case (own r)
    then show ?thesis
      using assms False by (simp add: addSocket_onError_own update_socket_def created_fields)
  next
    case (member name)
    then show ?thesis
      using assms False by (simp add: addSocket_throws created_fields)
  qed
qed

lemma addSocket_heap_other:
  assumes "websocket_upgrade req" "r \<noteq> next_ref g"
  shows "heap (snd (addSocket k req g)) r =
     (if onError (opts g) \<noteq> None \<and> map_of (sockets g) k = Some r then ws_close (heap g r)
      else heap g r)"
proof (cases "onError (opts g) = None")
  case True
  then show ?thesis
    using assms by (simp add: addSocket_no_onError created_fields)
next
  case False
  show ?thesis
  proof (cases rule: sockets_get_cases [of g k])
    case absent
    then show ?thesis
      using assms False by (simp add: addSocket_onError_absent update_socket_def created_fields)
  next
    case (own x)
    then show ?thesis
      using assms False by (simp add: addSocket_onError_own update_socket_def created_fields)
  next
    case (member name)
    then show ?thesis
      using assms False by (simp add: addSocket_throws created_fields)
  qed
qed

lemma group_inv_created:
  "group_inv g \<Longrightarrow> group_inv (created k g)"
  by (auto simp: group_inv_def list_all_iff created_fields)

lemma group_inv_addSocket:
  assumes "group_inv g"
  shows "group_inv (snd (addSocket k req g))"
proof (cases "\<exists>resp. fst (addSocket k req g) = Normal resp")
  case True
  then obtain resp where resp: "fst (addSocket k req g) = Normal resp" ..
  then have up: "websocket_upgrade req"
    by (simp add: addSocket_returns)
  show ?thesis
  proof (cases "onError (opts g) = None")
    case True
    show ?thesis
      by (rule group_inv_store [OF assms, of _ k])
         (simp_all add: addSocket_sockets [OF resp] addSocket_next_ref up True)
  next
    case False
    let ?d = "g\<lparr>sockets := AList.delete k (sockets g)\<rparr>"
    have d: "group_inv ?d"
      using assms by (auto intro: group_inv_delete)
    show ?thesis
      by (rule group_inv_store [OF d, of _ k])
         (simp_all add: addSocket_sockets [OF resp] addSocket_next_ref up False)
  qed
next
  case False
  show ?thesis
  proof (cases "websocket_upgrade req")
    case plain: False
    then show ?thesis using assms by (simp add: addSocket_plain_request)
  next
    case True
    then obtain name where "sockets_get g k = Some (PrototypeMember name)"
      and "onError (opts g) \<noteq> None"
      using False by (auto simp: addSocket_returns)
    then show ?thesis
      using True assms by (simp add: addSocket_throws group_inv_created)
  qed
qed

subsection \<open>\<open>broadcast\<close> keeps the invariant\<close>

lemma broadcast_loop_frame:
  "sockets (snd (broadcast_loop str m rs g)) = sockets g \<and>
   next_ref (snd (broadcast_loop str m rs g)) = next_ref g"
  by (induction rs arbitrary: g) (auto split: sum.splits)

lemma group_inv_broadcast: "group_inv (snd (broadcast str m g)) = group_inv g"
  by (simp add: group_inv_def broadcast_def broadcast_loop_frame)

subsection \<open>The platform's \<open>close\<close>\<close>

lemma ws_close_idem: "ws_close (ws_close ws) = ws_close ws"
  by (simp add: ws_close_def)

lemma readyState_ws_close: "readyState (ws_close ws) = CLOSING \<or> readyState (ws_close ws) = CLOSED"
  by (cases "readyState ws") (simp_all add: ws_close_def)

subsection \<open>The example inputs\<close>

lemma group_a_fields:
  "sockets group_a = [(StringKey ''a'', 0)]" "next_ref group_a = 1" "opts group_a = default_opts"
  "heap group_a r = new_socket"
  by (simp_all add: group_a_def addSocket_def upgradeWebSocket_def Let_def createSocketGroup_def
      default_opts_def upgrade_request_def)

lemma group_abc_fields:
  "sockets group_abc = [(StringKey ''a'', 0), (StringKey ''b'', 1), (StringKey ''c'', 2)]"
  "next_ref group_abc = 3" "opts group_abc = default_opts"
  "heap group_abc r = new_socket"
  by (simp_all add: group_abc_def group_a_fields addSocket_def upgradeWebSocket_def Let_def
      default_opts_def upgrade_request_def)

lemma opened_fields:
  "sockets (opened rs g) = sockets g" "next_ref (opened rs g) = next_ref g"
  "opts (opened rs g) = opts g"
  by (induction rs arbitrary: g)
     (simp_all add: opened_def open_event_def update_socket_def Let_def split: option.splits)

lemma opened_heap:
  "opts g = default_opts \<Longrightarrow>
   heap (opened rs g) r = (if r \<in> set rs then ws_open (heap g r) else heap g r)"
proof (induction rs arbitrary: g)
  case Nil
  then show ?case by (simp add: opened_def)
next
  case (Cons a rs)
  let ?g = "snd (open_event (\<lambda>f k g. (Normal (), g)) a g)"
  have step: "?g = update_socket a ws_open g"
    using Cons.prems
    by (simp add: open_event_def Let_def default_opts_def update_socket_def split: option.splits)
  have "opened (a # rs) g = opened rs ?g"
    by (simp add: opened_def)
  moreover have "opts ?g = default_opts"
    using Cons.prems by (simp add: step update_socket_def)
  ultimately show ?case
    using Cons.IH [of ?g] by (simp add: step update_socket_def ws_open_def)
qed

lemma group_abc_values: "Object_values (sockets group_abc) = [0, 1, 2]"
  by (simp add: group_abc_fields Object_values_def array_index_def is_digit_def)

lemma group_inv_group_abc: "group_inv group_abc"
  unfolding group_abc_def group_a_def
  by (intro group_inv_addSocket group_inv_createSocketGroup)

lemma group_inv_opened: "group_inv (opened rs g) = group_inv g"
  by (simp add: group_inv_def opened_fields)

lemma group_abc_onError_fields:
  "sockets group_abc_onError = [(StringKey ''a'', 0), (StringKey ''b'', 1), (StringKey ''c'', 2)]"
  "next_ref group_abc_onError = 3" "opts group_abc_onError = opts_with_onError"
  "readyState (heap group_abc_onError 0) = CONNECTING"
  by (simp_all add: group_abc_onError_def addSocket_def upgradeWebSocket_def removeSocket_def
      sockets_get_def inherited_def Object_prototype_members_def
      update_socket_def Let_def createSocketGroup_def opts_with_onError_def upgrade_request_def
      new_socket_def)

lemma group_inv_group_abc_onError: "group_inv group_abc_onError"
  unfolding group_abc_onError_def
  by (intro group_inv_addSocket group_inv_createSocketGroup)

lemma group_abc_opened_heap:
  "heap (opened rs group_abc) r = (if r \<in> set rs then ws_open new_socket else new_socket)"
  by (simp add: opened_heap group_abc_fields)

lemma group_a_listening_fields:
  "sockets group_a_listening = [(StringKey ''a'', 0)]"
  "onmessage (heap group_a_listening 0) = Some (StringKey ''a'', ping_handlers)"
  "readyState (heap group_a_listening 0) = OPEN"
  "sent (heap group_a_listening 0) = []"
  by (simp_all add: group_a_listening_def setHandlersForSocket_def sockets_get_def opened_fields
      group_a_fields update_socket_def opened_heap ws_open_def new_socket_def)

lemma group_a_onClose_fields:
  "sockets group_a_onClose = [(StringKey ''a'', 0)]"
  "opts group_a_onClose = opts_with_onClose"
  "heap group_a_onClose 0 = new_socket\<lparr>onclose := Some (StringKey ''a'')\<rparr>"
  by (simp_all add: group_a_onClose_def addSocket_def upgradeWebSocket_def update_socket_def
      Let_def createSocketGroup_def opts_with_onClose_def upgrade_request_def)

lemma group_a_listening_console: "console group_a_listening = []"
  by (simp add: group_a_listening_def setHandlersForSocket_def sockets_get_def opened_fields
      group_a_fields update_socket_def opened_def open_event_def Let_def group_a_def addSocket_def
      upgradeWebSocket_def createSocketGroup_def default_opts_def upgrade_request_def
      split: option.splits)

lemma group_toString_fields:
  "sockets group_toString = [(StringKey ''toString'', 0)]" "next_ref group_toString = 1"
  "opts group_toString = default_opts" "heap group_toString r = new_socket"
  by (simp_all add: group_toString_def addSocket_def upgradeWebSocket_def Let_def
      createSocketGroup_def default_opts_def upgrade_request_def)

lemma client_listening_fields:
  "handlers client_listening = Some ping_handlers"
  "socket client_listening = \<lparr>readyState = OPEN, sent = []\<rparr>"
  "client_console client_listening = []"
  by (simp_all add: client_listening_def clientSocket_setHandlersForSocket_def
      clientSocket_onopen_def connect_def ws_open_def)

section \<open>The claims\<close>

subsection \<open>Registering, looking up and removing sockets\<close>

text \<open>
  C1, as the code has it. \<open>addSocket\<close> has no conflict check: on a key that already
  holds a socket it does not fail. When the request upgrades it returns the response and
  the key then holds the newly created socket, which is not the one stored before; the
  existing entry is replaced. When the group was created without an \<open>onError\<close> option
  the replaced socket is left exactly as it was, so it is not closed.
\<close>

theorem addSocket_occupied_key_overwrites:
  assumes "websocket_upgrade req" "group_inv g"
    and "fst (getSocket key g) = Normal (Some (WebSocket old))"
  shows "fst (addSocket key req g) = Normal SwitchingProtocols \<and>
         fst (getSocket key (snd (addSocket key req g))) = Normal (Some (WebSocket (next_ref g))) \<and>
         next_ref g \<noteq> old \<and>
         (onError (opts g) = None \<longrightarrow> heap (snd (addSocket key req g)) old = heap g old)"
proof -
  have look: "map_of (sockets g) key = Some old"
    using assms(3) by (simp add: getSocket_WebSocket)
  then have fresh: "next_ref g \<noteq> old"
    using assms(2) by (auto dest: group_inv_lookup)
  have "sockets_get g key \<noteq> Some (PrototypeMember name)" for name
    using look by (simp add: sockets_get_member)
  then have returns: "fst (addSocket key req g) = Normal SwitchingProtocols"
    using assms(1) by (simp add: addSocket_returns)
  have "map_of (sockets (snd (addSocket key req g))) key = Some (next_ref g)"
    by (simp add: addSocket_sockets [OF returns] update_conv')
  then have "fst (getSocket key (snd (addSocket key req g))) =
      Normal (Some (WebSocket (next_ref g)))"
    by (simp add: getSocket_WebSocket)
  moreover have "onError (opts g) = None \<longrightarrow> heap (snd (addSocket key req g)) old = heap g old"
    using assms(1) fresh by (simp add: addSocket_heap_other)
  ultimately show ?thesis
    using returns fresh by simp
qed

text \<open>
  C1 as the specification states it fails on the code. Key \<^verbatim>\<open>"a"\<close> holds the socket
  at address 0; a second \<open>addSocket\<close> for \<^verbatim>\<open>"a"\<close> is not rejected: it returns the response,
  and the key then holds the socket at address 1.
\<close>

theorem addSocket_same_key_twice_counterexample:
  "fst (getSocket (StringKey ''a'') group_a) = Normal (Some (WebSocket 0)) \<and>
   fst (addSocket (StringKey ''a'') upgrade_request group_a) = Normal SwitchingProtocols \<and>
   fst (getSocket (StringKey ''a'') (snd (addSocket (StringKey ''a'') upgrade_request group_a)))
     = Normal (Some (WebSocket 1))"
proof -
  have returns: "fst (addSocket (StringKey ''a'') upgrade_request group_a) =
      Normal SwitchingProtocols"
    by (simp add: addSocket_returns upgrade_request_def group_a_fields default_opts_def)
  show ?thesis
    by (simp add: returns getSocket_WebSocket addSocket_sockets [OF returns] group_a_fields
        default_opts_def)
qed

text \<open>
  The theorem at work: key \<^verbatim>\<open>"b"\<close> of three holds the socket at address 1, and after a
  second \<open>addSocket\<close> for \<^verbatim>\<open>"b"\<close> it holds the new socket at address 3, the socket at
  address 1 being what it was.
\<close>

theorem addSocket_occupied_key_overwrites_witness:
  "websocket_upgrade upgrade_request \<and> group_inv group_abc \<and>
   fst (getSocket (StringKey ''b'') group_abc) = Normal (Some (WebSocket 1)) \<and>
   fst (addSocket (StringKey ''b'') upgrade_request group_abc) = Normal SwitchingProtocols \<and>
   fst (getSocket (StringKey ''b'') (snd (addSocket (StringKey ''b'') upgrade_request group_abc)))
     = Normal (Some (WebSocket 3)) \<and>
   heap (snd (addSocket (StringKey ''b'') upgrade_request group_abc)) 1 = heap group_abc 1"
proof -
  have up: "websocket_upgrade upgrade_request"
    by (simp add: upgrade_request_def)
  have held: "fst (getSocket (StringKey ''b'') group_abc) = Normal (Some (WebSocket 1))"
    by (simp add: getSocket_WebSocket group_abc_fields)
  show ?thesis
    using addSocket_occupied_key_overwrites [OF up group_inv_group_abc held] up held
      group_inv_group_abc
    by (simp add: group_abc_fields default_opts_def)
qed

text \<open>
  What \<open>removeSocket\<close> does on a key that is not the name of a function every object
  inherits. When \<open>getSocket k\<close> finds a socket, \<open>removeSocket k\<close> returns normally,
  calls \<open>close\<close> on that socket, which is closing or closed afterwards, and deletes the
  entry: \<open>getSocket k\<close> then finds nothing, and a second \<open>removeSocket k\<close> returns
  normally and changes nothing. The \<open>removeSocket\<close> inside the \<^verbatim>\<open>onclose\<close> handler of the
  removed socket neither throws nor changes anything. When \<open>getSocket k\<close> finds nothing,
  \<open>removeSocket k\<close> returns normally and changes nothing. Every other key holds what it
  held, and every other socket is as it was.
\<close>

lemma removeSocket_on_other_names:
  assumes "\<forall>name. k = StringKey name \<longrightarrow> \<not> inherited False name"
  shows "(fst (getSocket k g) = Normal (Some (WebSocket r)) \<longrightarrow>
      fst (removeSocket k g) = Normal () \<and>
      fst (getSocket k (snd (removeSocket k g))) = Normal None \<and>
      heap (snd (removeSocket k g)) r = ws_close (heap g r) \<and>
      (readyState (heap (snd (removeSocket k g)) r) = CLOSING \<or>
       readyState (heap (snd (removeSocket k g)) r) = CLOSED) \<and>
      removeSocket k (snd (removeSocket k g)) = (Normal (), snd (removeSocket k g)) \<and>
      (onclose (heap g r) = Some k \<longrightarrow>
         close_event notify r (snd (removeSocket k g)) =
           (case onClose (opts g) of
              None \<Rightarrow>
                (Normal (),
                 update_socket r (\<lambda>ws. ws\<lparr>readyState := CLOSED\<rparr>) (snd (removeSocket k g)))
            | Some f \<Rightarrow>
                notify f k
                  (update_socket r (\<lambda>ws. ws\<lparr>readyState := CLOSED\<rparr>) (snd (removeSocket k g)))))) \<and>
   (fst (getSocket k g) = Normal None \<longrightarrow> removeSocket k g = (Normal (), g)) \<and>
   (k' \<noteq> k \<longrightarrow> fst (getSocket k' (snd (removeSocket k g))) = fst (getSocket k' g)) \<and>
   (fst (getSocket k g) \<noteq> Normal (Some (WebSocket r')) \<longrightarrow>
      heap (snd (removeSocket k g)) r' = heap g r')"
proof (intro conjI impI)
  assume present: "fst (getSocket k g) = Normal (Some (WebSocket r))"
  then have look: "map_of (sockets g) k = Some r"
    by (simp add: getSocket_WebSocket)
  let ?g = "snd (removeSocket k g)"
  have g': "?g = (update_socket r ws_close g)\<lparr>sockets := AList.delete k (sockets g)\<rparr>"
    using look by (simp add: removeSocket_own)
  show "fst (removeSocket k g) = Normal ()"
    using look by (simp add: removeSocket_own)
  have "map_of (sockets ?g) k = None"
    by (simp add: g' delete_conv')
  then have gone: "sockets_get ?g k = None"
    using assms by (simp add: sockets_get_None)
  then show "fst (getSocket k ?g) = Normal None"
    by (simp add: getSocket_None)
  show closed: "heap ?g r = ws_close (heap g r)"
    by (simp add: g' update_socket_def)
  show "readyState (heap ?g r) = CLOSING \<or> readyState (heap ?g r) = CLOSED"
    unfolding closed by (rule readyState_ws_close)
  show "removeSocket k ?g = (Normal (), ?g)"
    using gone by (rule removeSocket_None)
  assume notified: "onclose (heap g r) = Some k"
  let ?c = "update_socket r (\<lambda>ws. ws\<lparr>readyState := CLOSED\<rparr>) ?g"
  have "onclose (heap ?c r) = Some k"
    using notified by (simp add: update_socket_def closed ws_close_def)
  moreover have "sockets_get ?c k = sockets_get ?g k"
    by (rule sockets_get_cong) (simp add: update_socket_def)
  then have "removeSocket k ?c = (Normal (), ?c)"
    using gone by (simp add: removeSocket_None)
  moreover have "opts ?c = opts g"
    by (simp add: update_socket_def g')
  ultimately show "close_event notify r ?g =
      (case onClose (opts g) of
         None \<Rightarrow> (Normal (), ?c)
       | Some f \<Rightarrow> notify f k ?c)"
    by (simp add: close_event_def socket_onclose_def Let_def)
next
  assume "fst (getSocket k g) = Normal None"
  then show "removeSocket k g = (Normal (), g)"
    by (simp add: getSocket_None removeSocket_None)
next
  assume other: "k' \<noteq> k"
  have "map_of (sockets (snd (removeSocket k g))) k' = map_of (sockets g) k'"
    using other
    by (cases rule: sockets_get_cases [of g k])
       (simp_all add: removeSocket_None removeSocket_own removeSocket_member delete_conv')
  then have "sockets_get (snd (removeSocket k g)) k' = sockets_get g k'"
    by (simp add: sockets_get_def)
  then show "fst (getSocket k' (snd (removeSocket k g))) = fst (getSocket k' g)"
    by (simp add: getSocket_def split: option.splits)
next
  assume "fst (getSocket k g) \<noteq> Normal (Some (WebSocket r'))"
  then have "map_of (sockets g) k \<noteq> Some r'"
    by (simp add: getSocket_WebSocket)
  then show "heap (snd (removeSocket k g)) r' = heap g r'"
    by (cases rule: sockets_get_cases [of g k])
       (auto simp: removeSocket_None removeSocket_own removeSocket_member update_socket_def)
qed

text \<open>
  C4 fails on the code at a key that is the name of a function every object inherits,
  such as \<^verbatim>\<open>"toString"\<close>. In a new group, which holds no socket, \<open>removeSocket\<close> for
  \<^verbatim>\<open>"toString"\<close> is not a no-op: it throws a TypeError. And once a socket has been
  registered under \<^verbatim>\<open>"toString"\<close> in a group created without options and removed again,
  \<open>getSocket\<close> for \<^verbatim>\<open>"toString"\<close> does not find nothing: it returns the inherited
  function, and a second \<open>removeSocket\<close> throws.
\<close>

theorem removeSocket_inherited_name_throws:
  "sockets (createSocketGroup default_opts) = [] \<and>
   removeSocket (StringKey ''toString'') (createSocketGroup default_opts) =
     (Throw TypeError, createSocketGroup default_opts) \<and>
   fst (getSocket (StringKey ''toString'') group_toString) = Normal (Some (WebSocket 0)) \<and>
   fst (removeSocket (StringKey ''toString'') group_toString) = Normal () \<and>
   sockets (snd (removeSocket (StringKey ''toString'') group_toString)) = [] \<and>
   fst (getSocket (StringKey ''toString'') (snd (removeSocket (StringKey ''toString'') group_toString)))
     = Normal (Some (PrototypeMember ''toString'')) \<and>
   fst (removeSocket (StringKey ''toString'') (snd (removeSocket (StringKey ''toString'') group_toString)))
     = Throw TypeError"
  by (simp add: removeSocket_def getSocket_def sockets_get_def inherited_def
      Object_prototype_members_def createSocketGroup_def group_toString_fields update_socket_def)



text \<open>
  C9. Let the key already hold a socket and the request upgrade. In a group created with
  an \<open>onError\<close> option, \<open>addSocket\<close> has called \<open>close\<close> on the socket the key held and
  deleted its entry before it stores the new socket, which therefore becomes a new
  property of \<^verbatim>\<open>_sockets\<close>. In a group created without the option the socket the key
  held is untouched and the new socket takes over the existing property.
\<close>

theorem addSocket_with_onError_removes_first:
  assumes "websocket_upgrade req" "group_inv g"
    and "fst (getSocket key g) = Normal (Some (WebSocket old))"
  shows "(onError (opts g) \<noteq> None \<longrightarrow>
            heap (snd (addSocket key req g)) old = ws_close (heap g old) \<and>
            sockets (snd (addSocket key req g)) =
              AList.update key (next_ref g) (AList.delete key (sockets g))) \<and>
         (onError (opts g) = None \<longrightarrow>
            heap (snd (addSocket key req g)) old = heap g old \<and>
            sockets (snd (addSocket key req g)) = AList.update key (next_ref g) (sockets g))"
proof -
  have look: "map_of (sockets g) key = Some old"
    using assms(3) by (simp add: getSocket_WebSocket)
  then have fresh: "old \<noteq> next_ref g"
    using assms(2) by (auto dest: group_inv_lookup)
  have "sockets_get g key \<noteq> Some (PrototypeMember name)" for name
    using look by (simp add: sockets_get_member)
  then have returns: "fst (addSocket key req g) = Normal SwitchingProtocols"
    using assms(1) by (simp add: addSocket_returns)
  show ?thesis
    using assms(1) look fresh by (simp add: addSocket_heap_other addSocket_sockets [OF returns])
qed

text \<open>
  The theorem at work, on both kinds of group: \<^verbatim>\<open>"a"\<close>, \<^verbatim>\<open>"b"\<close>, \<^verbatim>\<open>"c"\<close> are registered
  and \<^verbatim>\<open>"a"\<close> is registered again. With an \<open>onError\<close> option the socket at address 0 is
  closing afterwards and \<^verbatim>\<open>"a"\<close> has become the last property; without it the socket at
  address 0 is still connecting and \<^verbatim>\<open>"a"\<close> has kept its place.
\<close>

theorem addSocket_with_onError_removes_first_witness:
  "onError (opts group_abc_onError) \<noteq> None \<and>
   fst (getSocket (StringKey ''a'') group_abc_onError) = Normal (Some (WebSocket 0)) \<and>
   readyState (heap (snd (addSocket (StringKey ''a'') upgrade_request group_abc_onError)) 0)
     = CLOSING \<and>
   sockets (snd (addSocket (StringKey ''a'') upgrade_request group_abc_onError)) =
     [(StringKey ''b'', 1), (StringKey ''c'', 2), (StringKey ''a'', 3)] \<and>
   onError (opts group_abc) = None \<and>
   fst (getSocket (StringKey ''a'') group_abc) = Normal (Some (WebSocket 0)) \<and>
   readyState (heap (snd (addSocket (StringKey ''a'') upgrade_request group_abc)) 0)
     = CONNECTING \<and>
   sockets (snd (addSocket (StringKey ''a'') upgrade_request group_abc)) =
     [(StringKey ''a'', 3), (StringKey ''b'', 1), (StringKey ''c'', 2)]"
proof -
  have up: "websocket_upgrade upgrade_request"
    by (simp add: upgrade_request_def)
  have held: "fst (getSocket (StringKey ''a'') group_abc_onError) = Normal (Some (WebSocket 0))"
    by (simp add: getSocket_WebSocket group_abc_onError_fields)
  have held': "fst (getSocket (StringKey ''a'') group_abc) = Normal (Some (WebSocket 0))"
    by (simp add: getSocket_WebSocket group_abc_fields)
  show ?thesis
    using addSocket_with_onError_removes_first [OF up group_inv_group_abc_onError held]
      addSocket_with_onError_removes_first [OF up group_inv_group_abc held'] held held'
    by (simp add: group_abc_fields group_abc_onError_fields default_opts_def opts_with_onError_def
        ws_close_def new_socket_def)
qed

subsection \<open>Broadcasting\<close>

text \<open>
  C2, as the code has it. The loop of \<open>broadcast\<close> has no guard around a send. Let the
  message serialize, and let the sockets that \<open>Object.values\<close> lists be \<open>before\<close>, then
  \<open>r\<close>, then \<open>after\<close>, where no socket of \<open>before\<close> is connecting and \<open>r\<close> is, so that
  the send to \<open>r\<close> is the first to raise. Then \<open>broadcast\<close> throws that InvalidStateError
  to its caller; the open sockets of \<open>before\<close> have been sent the message; \<open>r\<close> and
  every socket of \<open>after\<close> are exactly as they were: nothing was sent to them.
\<close>

theorem broadcast_stops_at_first_failure:
  assumes "group_inv g" "JSON_stringify m = Inr s"
    and "Object_values (sockets g) = before @ r # after"
    and "\<forall>x\<in>set before. readyState (heap g x) \<noteq> CONNECTING"
    and "readyState (heap g r) = CONNECTING"
  shows "fst (broadcast JSON_stringify m g) = Throw InvalidStateError \<and>
         (\<forall>x\<in>set before. readyState (heap g x) = OPEN \<longrightarrow>
            sent (heap (snd (broadcast JSON_stringify m g)) x) = sent (heap g x) @ [s]) \<and>
         (\<forall>x\<in>set (r # after). heap (snd (broadcast JSON_stringify m g)) x = heap g x)"
proof -
  let ?g1 = "g\<lparr>heap := (\<lambda>x. if x \<in> set before \<and> readyState (heap g x) = OPEN
                               then (heap g x)\<lparr>sent := sent (heap g x) @ [s]\<rparr>
                               else heap g x)\<rparr>"
  have dist: "distinct (before @ r # after)"
    using assms(1,3) distinct_Object_values [of "sockets g"] by (simp add: group_inv_def)
  then have "distinct before" and apart: "\<forall>x\<in>set (r # after). x \<notin> set before"
    by auto
  then have first: "broadcast_loop JSON_stringify m before g = (Normal (), ?g1)"
    using assms(2,4) by (simp add: broadcast_loop_not_connecting)
  have "ws_send s (heap ?g1 r) = Inl InvalidStateError"
    using apart assms(5) by (simp add: ws_send_def)
  then have "broadcast_loop JSON_stringify m (r # after) ?g1 = (Throw InvalidStateError, ?g1)"
    using assms(2) by simp
  then have "broadcast JSON_stringify m g = (Throw InvalidStateError, ?g1)"
    using first assms(3) by (simp add: broadcast_def broadcast_loop_append)
  then show ?thesis
    using apart by auto
qed

text \<open>
  C2 as the specification states it fails on the code. Of three registered sockets
  the first is still connecting and the other two are open; the send to the first
  raises, \<open>broadcast\<close> throws, and the two open sockets are sent nothing.
\<close>

theorem broadcast_aborted_counterexample:
  "readyState (heap (opened [1, 2] group_abc) 0) = CONNECTING \<and>
   readyState (heap (opened [1, 2] group_abc) 1) = OPEN \<and>
   readyState (heap (opened [1, 2] group_abc) 2) = OPEN \<and>
   Object_values (sockets (opened [1, 2] group_abc)) = [0, 1, 2] \<and>
   fst (broadcast (\<lambda>m. Inr ping_text) ping (opened [1, 2] group_abc)) = Throw InvalidStateError \<and>
   sent (heap (snd (broadcast (\<lambda>m. Inr ping_text) ping (opened [1, 2] group_abc))) 1) = [] \<and>
   sent (heap (snd (broadcast (\<lambda>m. Inr ping_text) ping (opened [1, 2] group_abc))) 2) = []"
  by (simp add: broadcast_def opened_fields group_abc_values group_abc_opened_heap
      ws_send_def ws_open_def new_socket_def)

text \<open>
  The theorem at work: the first and the third of three sockets are open and the second
  is still connecting. The first is sent the message, then \<open>broadcast\<close> throws, and
  the second and the third are as they were.
\<close>

theorem broadcast_stops_at_first_failure_witness:
  "Object_values (sockets (opened [0, 2] group_abc)) = [0] @ 1 # [2] \<and>
   readyState (heap (opened [0, 2] group_abc) 0) = OPEN \<and>
   readyState (heap (opened [0, 2] group_abc) 1) = CONNECTING \<and>
   fst (broadcast (\<lambda>m. Inr ping_text) ping (opened [0, 2] group_abc)) = Throw InvalidStateError \<and>
   sent (heap (snd (broadcast (\<lambda>m. Inr ping_text) ping (opened [0, 2] group_abc))) 0) = [ping_text] \<and>
   heap (snd (broadcast (\<lambda>m. Inr ping_text) ping (opened [0, 2] group_abc))) 1 =
     heap (opened [0, 2] group_abc) 1 \<and>
   heap (snd (broadcast (\<lambda>m. Inr ping_text) ping (opened [0, 2] group_abc))) 2 =
     heap (opened [0, 2] group_abc) 2"
proof -
  let ?g = "opened [0, 2] group_abc"
  have inv: "group_inv ?g"
    by (simp add: group_inv_opened group_inv_group_abc)
  have listed: "Object_values (sockets ?g) = [0] @ 1 # [2]"
    by (simp add: opened_fields group_abc_values)
  have before: "\<forall>x\<in>set [0]. readyState (heap ?g x) \<noteq> CONNECTING"
    by (simp add: group_abc_opened_heap ws_open_def new_socket_def)
  have first: "readyState (heap ?g 1) = CONNECTING"
    by (simp add: group_abc_opened_heap new_socket_def)
  show ?thesis
    using broadcast_stops_at_first_failure
        [where JSON_stringify = "\<lambda>m. Inr ping_text" and m = ping and s = ping_text and g = ?g
           and before = "[0]" and r = 1 and after = "[2]"]
      inv listed before first
    by (simp add: group_abc_opened_heap ws_open_def new_socket_def)
qed

text \<open>
  C3, as the code has it. Let the message serialize to \<open>s\<close> and let every socket stored
  under a string key (a number key is one) be open. Then \<open>broadcast\<close> returns normally,
  every such socket has been handed \<open>s\<close> exactly once (its sent frames are what they were
  followed by \<open>s\<close>), and the registered sockets are the same as before.
\<close>

theorem broadcast_delivers_once_to_open_sockets:
  assumes "group_inv g" "JSON_stringify m = Inr s"
    and "\<forall>k r. fst (getSocket (StringKey k) g) = Normal (Some (WebSocket r)) \<longrightarrow>
           readyState (heap g r) = OPEN"
  shows "fst (broadcast JSON_stringify m g) = Normal () \<and>
         (\<forall>k r. fst (getSocket (StringKey k) g) = Normal (Some (WebSocket r)) \<longrightarrow>
            sent (heap (snd (broadcast JSON_stringify m g)) r) = sent (heap g r) @ [s]) \<and>
         sockets (snd (broadcast JSON_stringify m g)) = sockets g"
proof -
  let ?rs = "Object_values (sockets g)"
  let ?g1 = "g\<lparr>heap := (\<lambda>x. if x \<in> set ?rs \<and> readyState (heap g x) = OPEN
                               then (heap g x)\<lparr>sent := sent (heap g x) @ [s]\<rparr>
                               else heap g x)\<rparr>"
  have look: "fst (getSocket k g) = Normal (Some (WebSocket r)) \<longleftrightarrow> (k, r) \<in> set (sockets g)"
    for k r
  proof -
    have "fst (getSocket k g) = Normal (Some (WebSocket r)) \<longleftrightarrow> map_of (sockets g) k = Some r"
      by (rule getSocket_WebSocket)
    also have "\<dots> \<longleftrightarrow> (k, r) \<in> set (sockets g)"
      using assms(1) by (simp add: group_inv_def)
    finally show ?thesis .
  qed
  have listed: "r \<in> set ?rs \<longleftrightarrow> (\<exists>k. fst (getSocket (StringKey k) g) = Normal (Some (WebSocket r)))"
    for r
    by (simp add: set_Object_values look)
  have "distinct ?rs"
    using assms(1) by (simp add: group_inv_def distinct_Object_values)
  moreover have opened: "\<forall>r\<in>set ?rs. readyState (heap g r) = OPEN"
    using assms(3) listed by blast
  ultimately have "broadcast JSON_stringify m g = (Normal (), ?g1)"
    using assms(2) by (simp add: broadcast_def broadcast_loop_not_connecting)
  then show ?thesis
    using listed opened by auto
qed

text \<open>
  C3 as the specification states it fails on the code. \<^verbatim>\<open>"a"\<close>, \<^verbatim>\<open>"b"\<close> and \<^verbatim>\<open>"c"\<close> are
  registered; a \<open>broadcast\<close> of the ping message before their handshakes have
  completed throws, and none of the three is sent anything.
\<close>

theorem broadcast_before_handshake_counterexample:
  "fst (getSocket (StringKey ''a'') group_abc) = Normal (Some (WebSocket 0)) \<and>
   fst (getSocket (StringKey ''b'') group_abc) = Normal (Some (WebSocket 1)) \<and>
   fst (getSocket (StringKey ''c'') group_abc) = Normal (Some (WebSocket 2)) \<and>
   fst (broadcast (\<lambda>m. Inr ping_text) ping group_abc) = Throw InvalidStateError \<and>
   sent (heap (snd (broadcast (\<lambda>m. Inr ping_text) ping group_abc)) 0) = [] \<and>
   sent (heap (snd (broadcast (\<lambda>m. Inr ping_text) ping group_abc)) 1) = [] \<and>
   sent (heap (snd (broadcast (\<lambda>m. Inr ping_text) ping group_abc)) 2) = []"
proof -
  have "fst (getSocket (StringKey ''a'') group_abc) = Normal (Some (WebSocket 0))"
    and "fst (getSocket (StringKey ''b'') group_abc) = Normal (Some (WebSocket 1))"
    and "fst (getSocket (StringKey ''c'') group_abc) = Normal (Some (WebSocket 2))"
    by (simp_all add: getSocket_WebSocket group_abc_fields)
  moreover have "broadcast (\<lambda>m. Inr ping_text) ping group_abc = (Throw InvalidStateError, group_abc)"
    by (simp add: broadcast_def group_abc_values group_abc_fields(4) ws_send_def new_socket_def)
  ultimately show ?thesis
    by (simp add: group_abc_fields(4) new_socket_def)
qed

text \<open>
  The theorem at work: once the three sockets are open, each is sent the ping message
  exactly once.
\<close>

theorem broadcast_delivers_once_to_open_sockets_witness:
  "fst (getSocket (StringKey ''a'') (opened [0, 1, 2] group_abc)) = Normal (Some (WebSocket 0)) \<and>
   fst (getSocket (StringKey ''b'') (opened [0, 1, 2] group_abc)) = Normal (Some (WebSocket 1)) \<and>
   fst (getSocket (StringKey ''c'') (opened [0, 1, 2] group_abc)) = Normal (Some (WebSocket 2)) \<and>
   fst (broadcast (\<lambda>m. Inr ping_text) ping (opened [0, 1, 2] group_abc)) = Normal () \<and>
   sent (heap (snd (broadcast (\<lambda>m. Inr ping_text) ping (opened [0, 1, 2] group_abc))) 0) = [ping_text] \<and>
   sent (heap (snd (broadcast (\<lambda>m. Inr ping_text) ping (opened [0, 1, 2] group_abc))) 1) = [ping_text] \<and>
   sent (heap (snd (broadcast (\<lambda>m. Inr ping_text) ping (opened [0, 1, 2] group_abc))) 2) = [ping_text]"
proof -
  let ?g = "opened [0, 1, 2] group_abc"
  have inv: "group_inv ?g"
    by (simp add: group_inv_opened group_inv_group_abc)
  have a: "fst (getSocket (StringKey ''a'') ?g) = Normal (Some (WebSocket 0))"
    and b: "fst (getSocket (StringKey ''b'') ?g) = Normal (Some (WebSocket 1))"
    and c: "fst (getSocket (StringKey ''c'') ?g) = Normal (Some (WebSocket 2))"
    by (simp_all add: getSocket_WebSocket opened_fields group_abc_fields)
  have all_open: "\<forall>k r. fst (getSocket (StringKey k) ?g) = Normal (Some (WebSocket r)) \<longrightarrow>
      readyState (heap ?g r) = OPEN"
    by (auto simp: getSocket_WebSocket opened_fields group_abc_fields group_abc_opened_heap
        ws_open_def new_socket_def split: if_splits)
  have before: "sent (heap ?g r) = []" for r
    by (simp add: group_abc_opened_heap ws_open_def new_socket_def)
  note main = broadcast_delivers_once_to_open_sockets
    [where JSON_stringify = "\<lambda>m. Inr ping_text" and m = ping and s = ping_text and g = ?g,
      OF inv refl all_open]
  have "sent (heap (snd (broadcast (\<lambda>m. Inr ping_text) ping ?g)) r) = sent (heap ?g r) @ [ping_text]"
    if "fst (getSocket (StringKey k) ?g) = Normal (Some (WebSocket r))" for k r
    using main that by blast
  from this [OF a] this [OF b] this [OF c] main a b c show ?thesis
    unfolding before by simp
qed

subsection \<open>Dispatching incoming messages\<close>

text \<open>
  C6, as the code has it. Decoding is \<^verbatim>\<open>JSON.parse\<close> and nothing else. When \<^verbatim>\<open>JSON.parse\<close>
  throws on the text of an incoming message, the \<open>onmessage\<close> handler of the group and
  that of the client both return normally; all they do is write one entry to the
  console. No handler of the user runs (the result does not depend on \<open>call\<close>), and the
  sockets are as they were, so no connection is closed.
\<close>

theorem undecodable_message_is_logged_and_dropped:
  assumes "JSON_parse event_data = Inl e"
  shows "group_onmessage JSON_parse call hs key event_data g =
           (Normal (), g\<lparr>console := console g @ [CouldNotParse event_data e]\<rparr>) \<and>
         (onmessage (heap g r) = Some (key, hs) \<longrightarrow>
            message_event JSON_parse call r event_data g =
              (Normal (), g\<lparr>console := console g @ [CouldNotParse event_data e]\<rparr>)) \<and>
         heap (snd (group_onmessage JSON_parse call hs key event_data g)) = heap g \<and>
         sockets (snd (group_onmessage JSON_parse call hs key event_data g)) = sockets g \<and>
         clientSocket_onmessage proto_accessor JSON_parse ccall event_data c =
           (Normal (), c\<lparr>client_console := client_console c @ [CouldNotParse event_data e]\<rparr>) \<and>
         socket (snd (clientSocket_onmessage proto_accessor JSON_parse ccall event_data c)) = socket c"
  using assms
  by (simp add: group_onmessage_def message_event_def clientSocket_onmessage_def)

text \<open>
  C6 as the specification states it fails on the code: no message is checked against
  the shape \<^verbatim>\<open>{ key, data }\<close>. The message \<^verbatim>\<open>{ key: "ping" }\<close>, which has no data, is
  neither logged nor dropped: \<open>onmessage\<close> does what the \<^verbatim>\<open>ping\<close> handler does with
  undefined for its data, on the server and on the client, so the TypeError of a handler
  that needs its data leaves \<open>onmessage\<close>. The message \<^verbatim>\<open>{ data: 5 }\<close>, which has no key,
  is dropped and nothing is logged.
\<close>

theorem message_shape_is_not_checked_counterexample:
  "onmessage (heap group_a_listening 0) = Some (StringKey ''a'', ping_handlers) \<and>
   ping_handlers ''ping'' = Some (Handler 0) \<and>
   (\<forall>call. message_event (\<lambda>d. Inr ping_without_data) call 0 ''text'' group_a_listening =
      call (Handler 0) JUndefined (StringKey ''a'') group_a_listening) \<and>
   message_event (\<lambda>d. Inr ping_without_data) reads_data 0 ''text'' group_a_listening =
     (Throw TypeError, group_a_listening) \<and>
   handlers client_listening = Some ping_handlers \<and>
   (\<forall>call. clientSocket_onmessage False (\<lambda>d. Inr ping_without_data) call ''text''
        client_listening =
      call (Handler 0) JUndefined client_listening) \<and>
   clientSocket_onmessage False (\<lambda>d. Inr ping_without_data) client_reads_data ''text''
       client_listening =
     (Throw TypeError, client_listening) \<and>
   console group_a_listening = [] \<and>
   (\<forall>call. message_event (\<lambda>d. Inr data_without_key) call 0 ''text'' group_a_listening =
      (Normal (), group_a_listening)) \<and>
   client_console client_listening = [] \<and>
   (\<forall>call. clientSocket_onmessage False (\<lambda>d. Inr data_without_key) call ''text''
        client_listening =
      (Normal (), client_listening))"
  by (simp add: message_event_def group_onmessage_def clientSocket_onmessage_def
      group_a_listening_fields group_a_listening_console client_listening_fields
      ping_without_data_def data_without_key_def ping_handlers_def table_get_def inherited_def
      Object_prototype_members_def reads_data_def client_reads_data_def)

text \<open>
  The theorem at work, with handlers that would throw if they ran: a text that is no
  JSON arrives at the group and at the client.
\<close>

theorem undecodable_message_is_logged_and_dropped_witness:
  "onmessage (heap group_a_listening 0) = Some (StringKey ''a'', ping_handlers) \<and>
   message_event (\<lambda>d. Inl SyntaxError) (\<lambda>h v k g. (Throw TypeError, g)) 0 ''{oops'' group_a_listening =
     (Normal (), group_a_listening\<lparr>console := [CouldNotParse ''{oops'' SyntaxError]\<rparr>) \<and>
   clientSocket_onmessage False (\<lambda>d. Inl SyntaxError) (\<lambda>h v c. (Throw TypeError, c)) ''{oops''
       (clientSocket_onopen connect) =
     (Normal (), (clientSocket_onopen connect)\<lparr>client_console := [CouldNotParse ''{oops'' SyntaxError]\<rparr>)"
proof -
  have ccon: "client_console (clientSocket_onopen connect) = []"
    by (simp add: clientSocket_onopen_def connect_def)
  show ?thesis
    using undecodable_message_is_logged_and_dropped
      [where JSON_parse = "\<lambda>d. Inl SyntaxError" and event_data = "''{oops''" and e = SyntaxError
         and g = group_a_listening and r = 0 and key = "StringKey ''a''" and hs = ping_handlers
         and call = "\<lambda>h v k g. (Throw TypeError, g)" and ccall = "\<lambda>h v c. (Throw TypeError, c)"
         and c = "clientSocket_onopen connect" and proto_accessor = False, OF refl]
    by (simp add: group_a_listening_fields group_a_listening_console ccon)
qed

text \<open>
  What the dispatch does with a key that is not the name of a function every object
  inherits. An incoming message that parses to an object whose \<open>key\<close> is a string no
  handler is stored under is ignored: the \<open>onmessage\<close> handler of the group, and that
  of a client whose handler table is set, return normally and change nothing.
\<close>

lemma unhandled_tag_is_ignored:
  assumes "JSON_parse event_data = Inr v" "get_member v ''key'' = JString tag" "hs tag = None"
  shows "(\<not> inherited False tag \<longrightarrow>
            group_onmessage JSON_parse call hs key event_data g = (Normal (), g) \<and>
            (onmessage (heap g r) = Some (key, hs) \<longrightarrow>
               message_event JSON_parse call r event_data g = (Normal (), g))) \<and>
         (\<not> inherited proto_accessor tag \<longrightarrow> handlers c = Some hs \<longrightarrow>
            clientSocket_onmessage proto_accessor JSON_parse ccall event_data c = (Normal (), c))"
proof -
  have "truthy v"
    using assms(2) by (cases v) simp_all
  then show ?thesis
    using assms
    by (simp add: group_onmessage_def message_event_def clientSocket_onmessage_def table_get_def)
qed

text \<open>
  C8 fails on the code at a key that is the name of a function every object inherits.
  The handler table has a handler for \<^verbatim>\<open>ping\<close> only, and the message
  \<^verbatim>\<open>{ key: "hasOwnProperty", data: {} }\<close> arrives. It is not ignored: the lookup in the
  table finds the inherited function, \<open>onmessage\<close> calls it and its TypeError leaves
  \<open>onmessage\<close>, on the server and on the client, whatever the handlers of the user do.
\<close>

theorem inherited_tag_is_dispatched:
  "ping_handlers ''hasOwnProperty'' = None \<and>
   onmessage (heap group_a_listening 0) = Some (StringKey ''a'', ping_handlers) \<and>
   (\<forall>call. message_event (\<lambda>d. Inr hasOwnProperty_message) call 0 ''text'' group_a_listening =
      (Throw TypeError, group_a_listening)) \<and>
   handlers client_listening = Some ping_handlers \<and>
   (\<forall>call. clientSocket_onmessage False (\<lambda>d. Inr hasOwnProperty_message) call ''text''
        client_listening =
      (Throw TypeError, client_listening))"
  by (simp add: message_event_def group_onmessage_def clientSocket_onmessage_def
      group_a_listening_fields client_listening_fields hasOwnProperty_message_def
      ping_handlers_def table_get_def inherited_def Object_prototype_members_def
      call_inherited_def)

text \<open>
  C10. \<open>connect\<close> leaves \<^verbatim>\<open>_handlers\<close> undefined. On a client whose \<^verbatim>\<open>_handlers\<close> is
  undefined, a message that parses to a truthy value makes the \<open>onmessage\<close> handler
  throw a TypeError, and the client is as it was. After \<open>setHandlersForSocket\<close> the
  table is set. With a table set, a message whose key is a string does what the
  handler stored under that string does; when no handler is stored under it and it
  is not the name of a function every object inherits, \<open>onmessage\<close> returns normally
  and changes nothing.
\<close>

theorem dispatch_before_setHandlersForSocket_throws:
  assumes "JSON_parse event_data = Inr v" "truthy v"
  shows "handlers connect = None \<and>
         (handlers c = None \<longrightarrow>
            clientSocket_onmessage proto_accessor JSON_parse call event_data c =
              (Throw TypeError, c)) \<and>
         handlers (snd (clientSocket_setHandlersForSocket hs c)) = Some hs \<and>
         (handlers c = Some hs \<longrightarrow> get_member v ''key'' = JString tag \<longrightarrow>
            (hs tag = Some h \<longrightarrow>
               clientSocket_onmessage proto_accessor JSON_parse call event_data c =
                 call h (get_member v ''data'') c) \<and>
            (hs tag = None \<longrightarrow> \<not> inherited proto_accessor tag \<longrightarrow>
               clientSocket_onmessage proto_accessor JSON_parse call event_data c =
                 (Normal (), c)))"
  using assms
  by (simp add: clientSocket_onmessage_def connect_def clientSocket_setHandlersForSocket_def
      table_get_def)

text \<open>
  The theorem at work: the ping message arrives at an open client before
  \<open>setHandlersForSocket\<close> and after it, and so does a message with a key the table
  has no handler for. The handler of the user throws when its data is undefined and
  returns otherwise.
\<close>

theorem dispatch_before_setHandlersForSocket_throws_witness:
  "truthy ping \<and> truthy unknown_tag \<and>
   handlers (clientSocket_onopen connect) = None \<and>
   clientSocket_onmessage False (\<lambda>d. Inr ping) client_reads_data ping_text
       (clientSocket_onopen connect) =
     (Throw TypeError, clientSocket_onopen connect) \<and>
   handlers client_listening = Some ping_handlers \<and>
   clientSocket_onmessage False (\<lambda>d. Inr ping) client_reads_data ping_text client_listening =
     (Normal (), client_listening) \<and>
   clientSocket_onmessage False (\<lambda>d. Inr unknown_tag) client_reads_data ''text'' client_listening =
     (Normal (), client_listening)"
proof -
  have t: "truthy ping" "truthy unknown_tag"
    by (simp_all add: ping_def unknown_tag_def)
  have unset: "handlers (clientSocket_onopen connect) = None"
    by (simp add: clientSocket_onopen_def connect_def)
  have bound: "handlers client_listening = Some ping_handlers"
    by (simp add: client_listening_fields)
  note main = dispatch_before_setHandlersForSocket_throws
    [where proto_accessor = False and call = client_reads_data]
  show ?thesis
    using main [where JSON_parse = "\<lambda>d. Inr ping" and event_data = ping_text and v = ping
          and c = "clientSocket_onopen connect", OF refl t(1)]
      main [where JSON_parse = "\<lambda>d. Inr ping" and event_data = ping_text and v = ping
          and c = client_listening and hs = ping_handlers and tag = "''ping''"
          and h = "Handler 0", OF refl t(1)]
      main [where JSON_parse = "\<lambda>d. Inr unknown_tag" and event_data = "''text''"
          and v = unknown_tag and c = client_listening and hs = ping_handlers
          and tag = "''unknown_tag''", OF refl t(2)]
      t unset bound
    by (simp add: ping_def unknown_tag_def ping_handlers_def client_reads_data_def inherited_def
        Object_prototype_members_def)
qed

subsection \<open>Sending a message that does not serialize\<close>

text \<open>
  C7, as the code has it. Let \<^verbatim>\<open>JSON.stringify\<close> throw on the message. The client's
  \<open>send\<close> catches the error: when the message can be printed for the log, it writes the
  error to the console and returns normally; in every case the socket is untouched.
  The group's \<open>send\<close> to a key under which \<open>getSocket\<close> finds something throws the error
  to its caller and changes nothing; to a key under which \<open>getSocket\<close> finds nothing it
  returns normally and changes nothing. In no case is anything sent, and no socket is
  closed.
\<close>

theorem unserializable_message_is_not_sent:
  assumes "JSON_stringify m = Inl e"
  shows "(to_text m = Inr printed \<longrightarrow>
            clientSocket_send JSON_stringify to_text m c =
              (Normal (), c\<lparr>client_console := client_console c @ [CouldNotSerialize printed e]\<rparr>)) \<and>
         socket (snd (clientSocket_send JSON_stringify to_text m c)) = socket c \<and>
         (fst (getSocket k g) = Normal (Some found) \<longrightarrow>
            send JSON_stringify k m g = (Throw e, g)) \<and>
         (fst (getSocket k g) = Normal None \<longrightarrow> send JSON_stringify k m g = (Normal (), g)) \<and>
         snd (send JSON_stringify k m g) = g"
  using assms
  by (auto simp: clientSocket_send_def send_def getSocket_def
      split: option.splits sum.splits js_object.splits)

text \<open>
  C7 as the specification states it fails on the code. On the client, sending a
  message that \<^verbatim>\<open>JSON.stringify\<close> throws on does not fail at the call site: \<open>send\<close>
  returns normally, and the error is in the console.
\<close>

theorem client_send_swallows_counterexample:
  "fst (clientSocket_send (\<lambda>m. Inl TypeError) (\<lambda>m. Inr ''[object Object]'') ping
          (clientSocket_onopen connect)) = Normal () \<and>
   client_console (snd (clientSocket_send (\<lambda>m. Inl TypeError) (\<lambda>m. Inr ''[object Object]'') ping
          (clientSocket_onopen connect)))
     = [CouldNotSerialize ''[object Object]'' TypeError]"
  by (simp add: clientSocket_send_def clientSocket_onopen_def connect_def)

text \<open>
  The theorem at work: the client; the group's \<open>send\<close> to \<^verbatim>\<open>"a"\<close>, which holds a socket,
  to \<^verbatim>\<open>"z"\<close>, which holds none, and to \<^verbatim>\<open>"toString"\<close>, under which \<open>getSocket\<close> finds
  the inherited function.
\<close>

theorem unserializable_message_is_not_sent_witness:
  "clientSocket_send (\<lambda>m. Inl TypeError) (\<lambda>m. Inr ''[object Object]'') ping
       (clientSocket_onopen connect) =
     (Normal (), (clientSocket_onopen connect)
        \<lparr>client_console := [CouldNotSerialize ''[object Object]'' TypeError]\<rparr>) \<and>
   fst (getSocket (StringKey ''a'') group_a_listening) = Normal (Some (WebSocket 0)) \<and>
   send (\<lambda>m. Inl TypeError) (StringKey ''a'') ping group_a_listening =
     (Throw TypeError, group_a_listening) \<and>
   fst (getSocket (StringKey ''z'') group_a_listening) = Normal None \<and>
   send (\<lambda>m. Inl TypeError) (StringKey ''z'') ping group_a_listening =
     (Normal (), group_a_listening) \<and>
   fst (getSocket (StringKey ''toString'') group_a_listening) =
     Normal (Some (PrototypeMember ''toString'')) \<and>
   send (\<lambda>m. Inl TypeError) (StringKey ''toString'') ping group_a_listening =
     (Throw TypeError, group_a_listening)"
proof -
  have ccon: "client_console (clientSocket_onopen connect) = []"
    by (simp add: clientSocket_onopen_def connect_def)
  have a: "fst (getSocket (StringKey ''a'') group_a_listening) = Normal (Some (WebSocket 0))"
    and z: "fst (getSocket (StringKey ''z'') group_a_listening) = Normal None"
    and t: "fst (getSocket (StringKey ''toString'') group_a_listening) =
      Normal (Some (PrototypeMember ''toString''))"
    by (simp_all add: getSocket_def sockets_get_def inherited_def Object_prototype_members_def
        group_a_listening_fields)
  note main = unserializable_message_is_not_sent
    [where JSON_stringify = "\<lambda>m. Inl TypeError" and m = ping and e = TypeError
       and to_text = "\<lambda>m. Inr ''[object Object]''" and printed = "''[object Object]''"
       and c = "clientSocket_onopen connect" and g = group_a_listening, OF refl]
  show ?thesis
    using main [of "StringKey ''a''" "WebSocket 0"] main [of "StringKey ''z''" "WebSocket 0"]
      main [of "StringKey ''toString''" "PrototypeMember ''toString''"] a z t
    by (simp add: ccon)
qed

end
